theory Spec2Isabelle
  imports Complex_Main
begin

section \<open>JavaScript values and the validation library\<close>

text \<open>
  The protocol package describes every wire message with a Zod schema and validates
  incoming data with \<^verbatim>\<open>safeParse\<close>. The values that reach a validator are plain
  JavaScript values as produced by \<^verbatim>\<open>JSON.parse\<close>, plus \<^verbatim>\<open>undefined\<close> for an
  absent property. An object is kept as the list of its properties in insertion order;
  reading a property takes the first entry with that key. Numbers are kept exact: no
  schema of the package inspects the value of a number. Strings are sequences of
  characters, and the length of a string is the number of its characters.

  The library is Zod 3, the package's peer dependency. Its parsers are modelled for the
  schema constructors that the package uses, with the issue codes of Zod 3.
\<close>

datatype jsvalue =
    JUndefined
  | JNull
  | JBool bool
  | JNum rat
  | JStr string
  | JArr "jsvalue list"
  | JObj "(string \<times> jsvalue) list"

definition property :: "(string \<times> jsvalue) list \<Rightarrow> string \<Rightarrow> jsvalue" where
  "property obj k = (case map_of obj k of Some v \<Rightarrow> v | None \<Rightarrow> JUndefined)"

definition has_key :: "(string \<times> jsvalue) list \<Rightarrow> string \<Rightarrow> bool" where
  "has_key obj k = (k \<in> set (map fst obj))"

text \<open>Property access on an arbitrary value: anything but an object has no properties.\<close>

fun get_prop :: "jsvalue \<Rightarrow> string \<Rightarrow> jsvalue" where
  "get_prop (JObj obj) k = property obj k"
| "get_prop _ k = JUndefined"

subsection \<open>Issues\<close>

datatype path_elem = Key string | Index nat

datatype issue_code =
    invalid_type
  | invalid_literal
  | invalid_enum_value
  | invalid_union
  | invalid_union_discriminator
  | too_small
  | too_big

text \<open>
  An issue has a code and the path of the offending value; an \<open>invalid_union\<close> issue
  also carries the issues of every alternative that was tried.
\<close>

datatype issue = Issue (code: issue_code) (path: "path_elem list") (unionErrors: "issue list list")

fun at_path :: "path_elem \<Rightarrow> issue \<Rightarrow> issue" where
  "at_path k (Issue c p us) = Issue c (k # p) (map (map (at_path k)) us)"

subsection \<open>Schemas\<close>

datatype string_check = Min nat | Max nat

datatype unknownKeys = strip | passthrough

datatype schema =
    ZString "string_check list"
  | ZNumber
  | ZBoolean
  | ZLiteral string
  | ZEnum "string list"
  | ZNullable schema
  | ZOptional schema
  | ZArray schema
  | ZObject unknownKeys "(string \<times> schema) list"
  | ZUnion "schema list"
  | ZDiscriminatedUnion string "schema list"

text \<open>\<^verbatim>\<open>.nullish()\<close> is \<^verbatim>\<open>.nullable().optional()\<close>.\<close>

definition ZNullish :: "schema \<Rightarrow> schema" where
  "ZNullish s = ZOptional (ZNullable s)"

text \<open>\<^verbatim>\<open>z.object({...})\<close> strips unknown keys unless \<^verbatim>\<open>.passthrough()\<close> is called.\<close>

abbreviation z_object :: "(string \<times> schema) list \<Rightarrow> schema" where
  "z_object shape \<equiv> ZObject strip shape"

subsection \<open>Parsing\<close>

text \<open>
  A parse yields a status, the issues found and the parsed value. \<open>dirty\<close> is the status
  of a value of the right type that fails a refinement such as a length check.
  Issue paths are relative to the value parsed; the enclosing object or array prepends
  its key or index.
\<close>

datatype status = valid | dirty | aborted

type_synonym parsed = "status \<times> issue list \<times> jsvalue"

definition OK :: "jsvalue \<Rightarrow> parsed" where
  "OK v = (valid, [], v)"

definition INVALID :: "issue list \<Rightarrow> parsed" where
  "INVALID is = (aborted, is, JUndefined)"

definition status_of :: "parsed \<Rightarrow> status" where
  "status_of r = fst r"

definition issues_of :: "parsed \<Rightarrow> issue list" where
  "issues_of r = fst (snd r)"

definition value_of :: "parsed \<Rightarrow> jsvalue" where
  "value_of r = snd (snd r)"

definition nested :: "path_elem \<Rightarrow> parsed \<Rightarrow> parsed" where
  "nested k r = (status_of r, map (at_path k) (issues_of r), value_of r)"

fun run_check :: "string \<Rightarrow> string_check \<Rightarrow> issue list" where
  "run_check s (Min n) = (if length s < n then [Issue too_small [] []] else [])"
| "run_check s (Max n) = (if length s > n then [Issue too_big [] []] else [])"

definition merge_status :: "parsed list \<Rightarrow> status" where
  "merge_status rs =
     (if \<exists>r \<in> set rs. status_of r = aborted then aborted
      else if \<exists>r \<in> set rs. status_of r = dirty then dirty
      else valid)"

text \<open>
  \<^verbatim>\<open>ParseStatus.mergeArray\<close>: every element has been parsed and has reported its
  issues; one aborted element aborts the array.
\<close>

definition mergeArray :: "parsed list \<Rightarrow> parsed" where
  "mergeArray rs =
     (let st = merge_status rs; is = concat (map issues_of rs)
      in if st = aborted then INVALID is else (st, is, JArr (map value_of rs)))"

text \<open>
  \<^verbatim>\<open>ParseStatus.mergeObjectSync\<close>: a property is written to the result when its key
  is not \<^verbatim>\<open>__proto__\<close> and its parsed value is not \<^verbatim>\<open>undefined\<close> or the pair is
  marked \<open>alwaysSet\<close>. The pairs of the shape are marked when the key is present in
  the input; the pairs of passed-through keys are not marked.
\<close>

definition mergeObject :: "(string \<times> bool \<times> parsed) list \<Rightarrow> parsed" where
  "mergeObject pairs =
     (let st = merge_status (map (snd \<circ> snd) pairs);
          is = concat (map (issues_of \<circ> snd \<circ> snd) pairs)
      in if st = aborted then INVALID is
         else (st, is,
               JObj (map (\<lambda>(k, _, r). (k, value_of r))
                      (filter (\<lambda>(k, alwaysSet, r).
                                 k \<noteq> ''__proto__'' \<and> (value_of r \<noteq> JUndefined \<or> alwaysSet))
                         pairs))))"

text \<open>
  The table of a discriminated union: the literal of each option's discriminator
  property, mapped to the option.
\<close>

fun discriminator_entry :: "string \<Rightarrow> schema \<Rightarrow> (string \<times> schema) list" where
  "discriminator_entry disc (ZObject m shape) =
     (case map_of shape disc of Some (ZLiteral v) \<Rightarrow> [(v, ZObject m shape)] | _ \<Rightarrow> [])"
| "discriminator_entry disc _ = []"

definition optionsMap :: "string \<Rightarrow> schema list \<Rightarrow> (string \<times> schema) list" where
  "optionsMap disc opts = concat (map (discriminator_entry disc) opts)"

lemma discriminator_entry_mem:
  "(v, opt) \<in> set (discriminator_entry disc s) \<Longrightarrow> opt = s"
  by (cases s) (auto split: option.splits schema.splits)

lemma optionsMap_mem:
  "map_of (optionsMap disc opts) tag = Some opt \<Longrightarrow> opt \<in> set opts"
  by (auto simp: optionsMap_def dest!: map_of_SomeD discriminator_entry_mem)

lemma optionsMap_size:
  "map_of (optionsMap disc opts) tag = Some opt \<Longrightarrow> size opt \<le> size_list size opts"
  by (drule optionsMap_mem) (simp add: size_list_estimation')

function zparse :: "schema \<Rightarrow> jsvalue \<Rightarrow> parsed" where
  "zparse (ZString checks) d =
     (case d of
        JStr s \<Rightarrow>
          (let is = concat (map (run_check s) checks)
           in (if is = [] then valid else dirty, is, d))
      | _ \<Rightarrow> INVALID [Issue invalid_type [] []])"
| "zparse ZNumber d =
     (case d of JNum n \<Rightarrow> OK d | _ \<Rightarrow> INVALID [Issue invalid_type [] []])"
| "zparse ZBoolean d =
     (case d of JBool b \<Rightarrow> OK d | _ \<Rightarrow> INVALID [Issue invalid_type [] []])"
| "zparse (ZLiteral v) d =
     (if d = JStr v then OK d else INVALID [Issue invalid_literal [] []])"
| "zparse (ZEnum vs) d =
     (case d of
        JStr s \<Rightarrow> (if s \<in> set vs then OK d else INVALID [Issue invalid_enum_value [] []])
      | _ \<Rightarrow> INVALID [Issue invalid_type [] []])"
| "zparse (ZNullable s) d = (if d = JNull then OK JNull else zparse s d)"
| "zparse (ZOptional s) d = (if d = JUndefined then OK JUndefined else zparse s d)"
| "zparse (ZArray s) d =
     (case d of
        JArr items \<Rightarrow>
          mergeArray (map (\<lambda>(i, item). nested (Index i) (zparse s item)) (enumerate 0 items))
      | _ \<Rightarrow> INVALID [Issue invalid_type [] []])"
| "zparse (ZObject mode shape) d =
     (case d of
        JObj obj \<Rightarrow>
          mergeObject
            (map (\<lambda>(k, s). (k, has_key obj k, nested (Key k) (zparse s (property obj k)))) shape
             @ (case mode of
                  strip \<Rightarrow> []
                | passthrough \<Rightarrow>
                    map (\<lambda>(k, v). (k, False, OK v))
                      (filter (\<lambda>(k, v). k \<notin> set (map fst shape)) obj)))
      | _ \<Rightarrow> INVALID [Issue invalid_type [] []])"
| "zparse (ZUnion opts) d =
     (let rs = map (\<lambda>s. zparse s d) opts
      in case find (\<lambda>r. status_of r = valid) rs of
           Some r \<Rightarrow> r
         | None \<Rightarrow>
            (case find (\<lambda>r. status_of r = dirty) rs of
               Some r \<Rightarrow> r
             | None \<Rightarrow>
                 INVALID [Issue invalid_union []
                            (filter (\<lambda>is. is \<noteq> []) (map issues_of rs))]))"
| "zparse (ZDiscriminatedUnion disc opts) d =
     (case d of
        JObj obj \<Rightarrow>
          (case property obj disc of
             JStr tag \<Rightarrow>
               (case map_of (optionsMap disc opts) tag of
                  Some opt \<Rightarrow> zparse opt d
                | None \<Rightarrow> INVALID [Issue invalid_union_discriminator [Key disc] []])
           | _ \<Rightarrow> INVALID [Issue invalid_union_discriminator [Key disc] []])
      | _ \<Rightarrow> INVALID [Issue invalid_type [] []])"
  by pat_completeness auto
termination
  by (relation "measure (\<lambda>(s, d). size s)")
    (auto simp: less_Suc_eq_le size_list_estimation' dest: optionsMap_size)

text \<open>\<^verbatim>\<open>schema.safeParse(data)\<close>: success with the parsed data, or the issues.\<close>

datatype SafeParseReturn = Success (data: jsvalue) | Failure (issues: "issue list")

definition safeParse :: "schema \<Rightarrow> jsvalue \<Rightarrow> SafeParseReturn" where
  "safeParse s d =
     (let r = zparse s d
      in if status_of r = valid then Success (value_of r) else Failure (issues_of r))"

text \<open>
  A schema without refinements: no string of it has a \<open>min\<close> or \<open>max\<close> check. Only
  such a check makes a parse \<open>dirty\<close>.
\<close>

fun refinement_free :: "schema \<Rightarrow> bool" where
  "refinement_free (ZString checks) = (checks = [])"
| "refinement_free (ZNullable s) = refinement_free s"
| "refinement_free (ZOptional s) = refinement_free s"
| "refinement_free (ZArray s) = refinement_free s"
| "refinement_free (ZObject mode shape) = list_all (\<lambda>(k, s). refinement_free s) shape"
| "refinement_free (ZUnion opts) = list_all refinement_free opts"
| "refinement_free (ZDiscriminatedUnion disc opts) = list_all refinement_free opts"
| "refinement_free _ = True"

text \<open>
  The pairs that the object parser hands to \<open>mergeObject\<close>: one per key of the shape,
  then, in passthrough mode, one per unknown key of the input.
\<close>

definition object_pairs ::
  "unknownKeys \<Rightarrow> (string \<times> schema) list \<Rightarrow> (string \<times> jsvalue) list
     \<Rightarrow> (string \<times> bool \<times> parsed) list" where
  "object_pairs mode shape obj =
     map (\<lambda>(k, s). (k, has_key obj k, nested (Key k) (zparse s (property obj k)))) shape
     @ (case mode of
          strip \<Rightarrow> []
        | passthrough \<Rightarrow>
            map (\<lambda>(k, v). (k, False, OK v)) (filter (\<lambda>(k, v). k \<notin> set (map fst shape)) obj))"

section \<open>The protocol package\<close>

subsection \<open>Common types (common.ts)\<close>

definition GitHubProfileSchema :: schema where
  "GitHubProfileSchema = z_object
     [(''id'', ZNumber),
      (''login'', ZString []),
      (''name'', ZString []),
      (''avatar_url'', ZString []),
      (''email'', ZOptional (ZString [])),
      (''bio'', ZNullable (ZString []))]"

definition ImageRefSchema :: schema where
  "ImageRefSchema = z_object
     [(''width'', ZNumber),
      (''height'', ZNumber),
      (''thumbhash'', ZString []),
      (''path'', ZString []),
      (''url'', ZString [])]"

definition RelationshipStatusSchema :: schema where
  "RelationshipStatusSchema =
     ZEnum [''none'', ''requested'', ''pending'', ''friend'', ''rejected'']"

definition UserProfileSchema :: schema where
  "UserProfileSchema = z_object
     [(''id'', ZString []),
      (''firstName'', ZString []),
      (''lastName'', ZNullable (ZString [])),
      (''avatar'', ZNullable ImageRefSchema),
      (''username'', ZString []),
      (''bio'', ZNullable (ZString [])),
      (''status'', RelationshipStatusSchema)]"

definition FeedBodySchema :: schema where
  "FeedBodySchema = ZDiscriminatedUnion ''kind''
     [z_object [(''kind'', ZLiteral ''friend_request''), (''uid'', ZString [])],
      z_object [(''kind'', ZLiteral ''friend_accepted''), (''uid'', ZString [])],
      z_object [(''kind'', ZLiteral ''text''), (''text'', ZString [])]]"

definition EncryptedContentSchema :: schema where
  "EncryptedContentSchema = z_object
     [(''t'', ZLiteral ''encrypted''),
      (''c'', ZString [])]"

definition VersionedValueSchema :: schema where
  "VersionedValueSchema = z_object
     [(''version'', ZNumber),
      (''value'', ZString [])]"

definition NullableVersionedValueSchema :: schema where
  "NullableVersionedValueSchema = z_object
     [(''version'', ZNumber),
      (''value'', ZNullable (ZString []))]"

subsection \<open>String limits (constraints.ts)\<close>

text \<open>
  The session and machine modules bound their strings with the constants of
  \<^verbatim>\<open>STRING_LIMITS\<close>. The module that sets them is not part of the sources at hand, so
  the schemas that use them take the limits as a parameter.
\<close>

record STRING_LIMITS =
  ID_MAX :: nat
  ENCRYPTED_STATE_MAX :: nat
  DATA_ENCRYPTION_KEY_MAX :: nat

subsection \<open>Message updates (updates/message.ts)\<close>

definition ApiMessageSchema :: schema where
  "ApiMessageSchema = z_object
     [(''id'', ZString []),
      (''seq'', ZNumber),
      (''localId'', ZNullish (ZString [])),
      (''content'', EncryptedContentSchema),
      (''createdAt'', ZNumber)]"

definition ApiUpdateNewMessageSchema :: schema where
  "ApiUpdateNewMessageSchema = z_object
     [(''t'', ZLiteral ''new-message''),
      (''sid'', ZString []),
      (''message'', ApiMessageSchema)]"

definition ApiDeleteSessionSchema :: schema where
  "ApiDeleteSessionSchema = z_object
     [(''t'', ZLiteral ''delete-session''),
      (''sid'', ZString [])]"

subsection \<open>Session updates (updates/session.ts)\<close>

text \<open>
  The session module in its current form: every session update carries its identifier
  as \<open>sid\<close>, bounded by \<open>ID_MAX\<close>. (An earlier copy of the module named the field
  \<open>id\<close> and had no limits; the accessor tests are written against \<open>sid\<close>.)
\<close>

definition ApiUpdateNewSessionSchema :: "STRING_LIMITS \<Rightarrow> schema" where
  "ApiUpdateNewSessionSchema L = z_object
     [(''t'', ZLiteral ''new-session''),
      (''sid'', ZString [Min 1, Max (ID_MAX L)]),
      (''seq'', ZNumber),
      (''metadata'', ZString [Max (ENCRYPTED_STATE_MAX L)]),
      (''metadataVersion'', ZNumber),
      (''agentState'', ZNullable (ZString [Max (ENCRYPTED_STATE_MAX L)])),
      (''agentStateVersion'', ZNumber),
      (''dataEncryptionKey'', ZNullable (ZString [Max (DATA_ENCRYPTION_KEY_MAX L)])),
      (''active'', ZBoolean),
      (''activeAt'', ZNumber),
      (''createdAt'', ZNumber),
      (''updatedAt'', ZNumber)]"

definition ApiUpdateSessionStateSchema :: "STRING_LIMITS \<Rightarrow> schema" where
  "ApiUpdateSessionStateSchema L = z_object
     [(''t'', ZLiteral ''update-session''),
      (''sid'', ZString [Min 1, Max (ID_MAX L)]),
      (''agentState'', ZNullish NullableVersionedValueSchema),
      (''metadata'', ZNullish NullableVersionedValueSchema)]"

definition ArchiveReasonSchema :: schema where
  "ArchiveReasonSchema = ZEnum [''revival_failed'', ''user_requested'', ''timeout'']"

definition ApiArchiveSessionSchema :: "STRING_LIMITS \<Rightarrow> schema" where
  "ApiArchiveSessionSchema L = z_object
     [(''t'', ZLiteral ''archive-session''),
      (''sid'', ZString [Min 1, Max (ID_MAX L)]),
      (''archivedAt'', ZNumber),
      (''archiveReason'', ArchiveReasonSchema)]"

subsection \<open>Machine updates (updates/machine.ts)\<close>

definition ApiNewMachineSchema :: schema where
  "ApiNewMachineSchema = z_object
     [(''t'', ZLiteral ''new-machine''),
      (''machineId'', ZString []),
      (''seq'', ZNumber),
      (''metadata'', ZString []),
      (''metadataVersion'', ZNumber),
      (''daemonState'', ZNullable (ZString [])),
      (''daemonStateVersion'', ZNumber),
      (''dataEncryptionKey'', ZNullable (ZString [])),
      (''active'', ZBoolean),
      (''activeAt'', ZNumber),
      (''createdAt'', ZNumber),
      (''updatedAt'', ZNumber)]"

definition ApiUpdateMachineStateSchema :: schema where
  "ApiUpdateMachineStateSchema = z_object
     [(''t'', ZLiteral ''update-machine''),
      (''machineId'', ZString []),
      (''metadata'', ZOptional VersionedValueSchema),
      (''daemonState'', ZOptional VersionedValueSchema),
      (''active'', ZOptional ZBoolean),
      (''activeAt'', ZOptional ZNumber)]"

text \<open>
  The bounded copy of the machine module adds the schema of the \<open>delete-machine\<close>
  update.
\<close>

definition ApiDeleteMachineSchema :: "STRING_LIMITS \<Rightarrow> schema" where
  "ApiDeleteMachineSchema L = z_object
     [(''t'', ZLiteral ''delete-machine''),
      (''machineId'', ZString [Min 1, Max (ID_MAX L)])]"

subsection \<open>Artifact updates (updates/artifact.ts)\<close>

definition ApiNewArtifactSchema :: schema where
  "ApiNewArtifactSchema = z_object
     [(''t'', ZLiteral ''new-artifact''),
      (''artifactId'', ZString []),
      (''header'', ZString []),
      (''headerVersion'', ZNumber),
      (''body'', ZOptional (ZString [])),
      (''bodyVersion'', ZOptional ZNumber),
      (''dataEncryptionKey'', ZString []),
      (''seq'', ZNumber),
      (''createdAt'', ZNumber),
      (''updatedAt'', ZNumber)]"

definition ApiUpdateArtifactSchema :: schema where
  "ApiUpdateArtifactSchema = z_object
     [(''t'', ZLiteral ''update-artifact''),
      (''artifactId'', ZString []),
      (''header'', ZOptional VersionedValueSchema),
      (''body'', ZOptional VersionedValueSchema)]"

definition ApiDeleteArtifactSchema :: schema where
  "ApiDeleteArtifactSchema = z_object
     [(''t'', ZLiteral ''delete-artifact''),
      (''artifactId'', ZString [])]"

subsection \<open>Account updates (updates/account.ts)\<close>

definition ApiUpdateAccountSchema :: schema where
  "ApiUpdateAccountSchema = z_object
     [(''t'', ZLiteral ''update-account''),
      (''id'', ZString []),
      (''settings'', ZNullish NullableVersionedValueSchema),
      (''firstName'', ZNullish (ZString [])),
      (''lastName'', ZNullish (ZString [])),
      (''avatar'', ZNullish ImageRefSchema),
      (''github'', ZNullish GitHubProfileSchema)]"

subsection \<open>Miscellaneous updates (updates/misc.ts)\<close>

definition ApiRelationshipUpdatedSchema :: schema where
  "ApiRelationshipUpdatedSchema = z_object
     [(''t'', ZLiteral ''relationship-updated''),
      (''fromUserId'', ZString []),
      (''toUserId'', ZString []),
      (''status'', RelationshipStatusSchema),
      (''action'', ZEnum [''created'', ''updated'', ''deleted'']),
      (''fromUser'', ZOptional UserProfileSchema),
      (''toUser'', ZOptional UserProfileSchema),
      (''timestamp'', ZNumber)]"

definition ApiNewFeedPostSchema :: schema where
  "ApiNewFeedPostSchema = z_object
     [(''t'', ZLiteral ''new-feed-post''),
      (''id'', ZString []),
      (''body'', FeedBodySchema),
      (''cursor'', ZString []),
      (''createdAt'', ZNumber),
      (''repeatKey'', ZNullable (ZString []))]"

definition ApiKvBatchUpdateSchema :: schema where
  "ApiKvBatchUpdateSchema = z_object
     [(''t'', ZLiteral ''kv-batch-update''),
      (''changes'', ZArray (z_object
         [(''key'', ZString []),
          (''value'', ZNullable (ZString [])),
          (''version'', ZNumber)]))]"

subsection \<open>The union of all updates (updates/index.ts)\<close>

definition ApiUpdateOptions :: "STRING_LIMITS \<Rightarrow> schema list" where
  "ApiUpdateOptions L =
     [ApiUpdateNewMessageSchema,
      ApiUpdateNewSessionSchema L,
      ApiDeleteSessionSchema,
      ApiUpdateSessionStateSchema L,
      ApiUpdateAccountSchema,
      ApiUpdateMachineStateSchema,
      ApiNewMachineSchema,
      ApiNewArtifactSchema,
      ApiUpdateArtifactSchema,
      ApiDeleteArtifactSchema,
      ApiRelationshipUpdatedSchema,
      ApiNewFeedPostSchema,
      ApiKvBatchUpdateSchema]"

definition ApiUpdateSchema :: "STRING_LIMITS \<Rightarrow> schema" where
  "ApiUpdateSchema L = ZDiscriminatedUnion ''t'' (ApiUpdateOptions L)"

text \<open>\<^verbatim>\<open>ApiUpdateType = ApiUpdate['t']\<close>: the tags of the union's members.\<close>

definition ApiUpdateType :: "string list" where
  "ApiUpdateType =
     [''new-message'', ''new-session'', ''delete-session'', ''update-session'',
      ''update-account'', ''update-machine'', ''new-machine'', ''new-artifact'',
      ''update-artifact'', ''delete-artifact'', ''relationship-updated'',
      ''new-feed-post'', ''kv-batch-update'']"

text \<open>
  The members of a union that structurally contain a property: those whose object shape
  declares the key.
\<close>

fun has_property :: "schema \<Rightarrow> string \<Rightarrow> bool" where
  "has_property (ZObject m shape) k = (k \<in> set (map fst shape))"
| "has_property _ k = False"

definition variants_with :: "string \<Rightarrow> string \<Rightarrow> schema list \<Rightarrow> string list" where
  "variants_with k disc opts =
     map fst (filter (\<lambda>(tag, opt). has_property opt k) (optionsMap disc opts))"

subsection \<open>Ephemeral events (ephemeral/events.ts)\<close>

definition ApiEphemeralActivityUpdateSchema :: schema where
  "ApiEphemeralActivityUpdateSchema = z_object
     [(''type'', ZLiteral ''activity''),
      (''id'', ZString []),
      (''active'', ZBoolean),
      (''activeAt'', ZNumber),
      (''thinking'', ZBoolean)]"

definition ApiEphemeralUsageUpdateSchema :: schema where
  "ApiEphemeralUsageUpdateSchema = z_object
     [(''type'', ZLiteral ''usage''),
      (''id'', ZString []),
      (''key'', ZString []),
      (''timestamp'', ZNumber),
      (''tokens'', z_object
         [(''total'', ZNumber),
          (''input'', ZNumber),
          (''output'', ZNumber),
          (''cache_creation'', ZNumber),
          (''cache_read'', ZNumber)]),
      (''cost'', z_object
         [(''total'', ZNumber),
          (''input'', ZNumber),
          (''output'', ZNumber)])]"

definition ApiEphemeralMachineActivityUpdateSchema :: schema where
  "ApiEphemeralMachineActivityUpdateSchema = z_object
     [(''type'', ZLiteral ''machine-activity''),
      (''id'', ZString []),
      (''active'', ZBoolean),
      (''activeAt'', ZNumber)]"

definition ApiEphemeralMachineStatusUpdateSchema :: schema where
  "ApiEphemeralMachineStatusUpdateSchema = z_object
     [(''type'', ZLiteral ''machine-status''),
      (''machineId'', ZString []),
      (''online'', ZBoolean),
      (''timestamp'', ZNumber)]"

definition ApiEphemeralUpdateOptions :: "schema list" where
  "ApiEphemeralUpdateOptions =
     [ApiEphemeralActivityUpdateSchema,
      ApiEphemeralUsageUpdateSchema,
      ApiEphemeralMachineActivityUpdateSchema,
      ApiEphemeralMachineStatusUpdateSchema]"

definition ApiEphemeralUpdateSchema :: schema where
  "ApiEphemeralUpdateSchema = ZUnion ApiEphemeralUpdateOptions"

subsection \<open>Payload wrappers (payloads.ts)\<close>

definition ApiUpdateContainerSchema :: "STRING_LIMITS \<Rightarrow> schema" where
  "ApiUpdateContainerSchema L = z_object
     [(''id'', ZString []),
      (''seq'', ZNumber),
      (''body'', ApiUpdateSchema L),
      (''createdAt'', ZNumber)]"

definition UpdatePayloadSchema :: schema where
  "UpdatePayloadSchema = z_object
     [(''id'', ZString []),
      (''seq'', ZNumber),
      (''body'', ZObject passthrough [(''t'', ZString [])]),
      (''createdAt'', ZNumber)]"

definition EphemeralPayloadSchema :: schema where
  "EphemeralPayloadSchema = ApiEphemeralUpdateSchema"

subsection \<open>Identifier accessors (helpers.ts)\<close>

text \<open>
  Modelled from the spec: the accessor module itself is not among the sources (only its
  tests are). Section 6 of the specification lists the updates that carry a session
  identifier in \<open>sid\<close>.
\<close>

definition SESSION_ID_UPDATE_TYPES :: "string list" where
  "SESSION_ID_UPDATE_TYPES =
     [''new-session'', ''update-session'', ''delete-session'', ''archive-session'',
      ''new-message'']"

text \<open>
  Modelled from the spec: section 6 lists the updates that carry a machine identifier in
  \<open>machineId\<close>.
\<close>

definition MACHINE_ID_UPDATE_TYPES :: "string list" where
  "MACHINE_ID_UPDATE_TYPES = [''new-machine'', ''update-machine'', ''delete-machine'']"

text \<open>
  Modelled from the spec: \<open>has<X>Id\<close> is true iff the value's discriminator is one of the
  statically known variants that carry the identifier.
\<close>

definition hasSessionId :: "jsvalue \<Rightarrow> bool" where
  "hasSessionId update = (get_prop update ''t'' \<in> set (map JStr SESSION_ID_UPDATE_TYPES))"

text \<open>Modelled from the spec: as \<open>hasSessionId\<close>, for the machine identifier.\<close>

definition hasMachineId :: "jsvalue \<Rightarrow> bool" where
  "hasMachineId update = (get_prop update ''t'' \<in> set (map JStr MACHINE_ID_UPDATE_TYPES))"

text \<open>
  Modelled from the spec: the outcome of \<open>get<X>Id\<close> is the identifier, or the fault of
  a caller that broke the precondition. The fault is not a validation result: it carries
  no issues.
\<close>

datatype accessor_outcome = Returns string | InvariantViolation

text \<open>
  Modelled from the spec: \<open>get<X>Id\<close> returns the identifier of a value that carries
  one; on any other value the call is a programming error that fails loudly.
\<close>

definition getSessionId :: "jsvalue \<Rightarrow> accessor_outcome" where
  "getSessionId update =
     (if hasSessionId update
      then (case get_prop update ''sid'' of JStr s \<Rightarrow> Returns s | _ \<Rightarrow> InvariantViolation)
      else InvariantViolation)"

text \<open>Modelled from the spec: as \<open>getSessionId\<close>, for the machine identifier.\<close>

definition getMachineId :: "jsvalue \<Rightarrow> accessor_outcome" where
  "getMachineId update =
     (if hasMachineId update
      then (case get_prop update ''machineId'' of JStr s \<Rightarrow> Returns s | _ \<Rightarrow> InvariantViolation)
      else InvariantViolation)"

text \<open>
  Modelled from the spec: \<open>tryGet<X>Id\<close> is total; it returns the identifier if present
  and \<^verbatim>\<open>undefined\<close> (here \<open>None\<close>) otherwise.
\<close>

definition tryGetSessionId :: "jsvalue \<Rightarrow> string option" where
  "tryGetSessionId update =
     (if hasSessionId update
      then (case get_prop update ''sid'' of JStr s \<Rightarrow> Some s | _ \<Rightarrow> None)
      else None)"

text \<open>Modelled from the spec: as \<open>tryGetSessionId\<close>, for the machine identifier.\<close>

definition tryGetMachineId :: "jsvalue \<Rightarrow> string option" where
  "tryGetMachineId update =
     (if hasMachineId update
      then (case get_prop update ''machineId'' of JStr s \<Rightarrow> Some s | _ \<Rightarrow> None)
      else None)"

section \<open>The github-casing lint rule (lint-rules/src/rules/github-casing.js)\<close>

text \<open>
  Identifier names are ASCII strings. The regular expression \<^verbatim>\<open>/Github(?!ub)/i\<close> is
  matched without the unicode flag, so two characters agree when their upper-case forms
  agree, and only the letters a to z change under upper-casing.
\<close>

definition canonicalize :: "char \<Rightarrow> char" where
  "canonicalize c =
     (case map_of (zip ''abcdefghijklmnopqrstuvwxyz'' ''ABCDEFGHIJKLMNOPQRSTUVWXYZ'') c of
        Some u \<Rightarrow> u
      | None \<Rightarrow> c)"

text \<open>
  The pattern at the start of \<open>s\<close>: the six letters of \<open>Github\<close> in any case, not
  followed by \<open>ub\<close> in any case (the negative lookahead).
\<close>

definition matches_here :: "string \<Rightarrow> bool" where
  "matches_here s =
     (map canonicalize (take 6 s) = ''GITHUB'' \<and>
      map canonicalize (take 2 (drop 6 s)) \<noteq> ''UB'')"

text \<open>\<^verbatim>\<open>regex.test(name)\<close>: the pattern matches at some position.\<close>

fun regex_test :: "string \<Rightarrow> bool" where
  "regex_test [] = matches_here []"
| "regex_test (c # cs) = (matches_here (c # cs) \<or> regex_test cs)"

text \<open>\<^verbatim>\<open>name.includes(needle)\<close>: \<open>needle\<close> occurs in \<open>name\<close> as a substring.\<close>

fun str_includes :: "string \<Rightarrow> string \<Rightarrow> bool" where
  "str_includes [] needle = (needle = [])"
| "str_includes (c # cs) needle = (take (length needle) (c # cs) = needle \<or> str_includes cs needle)"

definition hasIncorrectGithubCasing :: "string \<Rightarrow> bool" where
  "hasIncorrectGithubCasing name =
     (regex_test name \<and> str_includes name ''Github'' \<and> \<not> str_includes name ''GitHub'')"

text \<open>\<^verbatim>\<open>name.replace(/Github/g, 'GitHub')\<close>\<close>

fun fixGithubCasing :: "string \<Rightarrow> string" where
  "fixGithubCasing [] = []"
| "fixGithubCasing (c # cs) =
     (if take 6 (c # cs) = ''Github'' then ''GitHub'' @ fixGithubCasing (drop 5 cs)
      else c # fixGithubCasing cs)"

text \<open>
  A report of the rule: the message identifier, the offending name and the replacement
  text of the fix.
\<close>

record report =
  messageId :: string
  name_data :: string
  fix_text :: string

definition reportIncorrectCasing :: "string \<Rightarrow> report option" where
  "reportIncorrectCasing name =
     (if hasIncorrectGithubCasing name
      then Some \<lparr>messageId = ''incorrectCasing'', name_data = name,
                 fix_text = fixGithubCasing name\<rparr>
      else None)"

text \<open>
  The four visitors of the rule (type alias, interface, class and enum declarations) do
  the same: report on the declaration's identifier when it has one.
\<close>

datatype type_like_declaration = TSTypeAliasDeclaration | TSInterfaceDeclaration | ClassDeclaration
  | TSEnumDeclaration

definition visit :: "type_like_declaration \<Rightarrow> string option \<Rightarrow> report option" where
  "visit node ident = (case ident of None \<Rightarrow> None | Some name \<Rightarrow> reportIncorrectCasing name)"

section \<open>Example messages\<close>

text \<open>A \<open>new-message\<close> update with the given session identifier and content envelope.\<close>

definition new_message :: "string \<Rightarrow> jsvalue \<Rightarrow> jsvalue" where
  "new_message sid content =
     JObj [(''t'', JStr ''new-message''),
           (''sid'', JStr sid),
           (''message'', JObj
              [(''id'', JStr ''msg-001''),
               (''seq'', JNum 1),
               (''content'', content),
               (''createdAt'', JNum 1700000000000)])]"

text \<open>The message of the specification's first scenario, with its content envelope.\<close>

definition scenario1 :: jsvalue where
  "scenario1 =
     new_message ''session-789''
       (JObj [(''tag'', JStr ''encrypted''), (''ciphertext'', JStr ''abc'')])"

text \<open>The same message with the envelope that \<open>EncryptedContentSchema\<close> declares.\<close>

definition newMessageUpdate :: jsvalue where
  "newMessageUpdate =
     new_message ''session-789'' (JObj [(''t'', JStr ''encrypted''), (''c'', JStr ''abc'')])"

definition bogusUpdate :: jsvalue where
  "bogusUpdate = JObj [(''t'', JStr ''bogus-variant''), (''foo'', JStr ''bar'')]"

text \<open>The examples of the \<open>archive-session\<close> and \<open>delete-machine\<close> doc comments.\<close>

definition archiveSessionUpdate :: jsvalue where
  "archiveSessionUpdate =
     JObj [(''t'', JStr ''archive-session''),
           (''sid'', JStr ''session_abc123''),
           (''archivedAt'', JNum 1700000000000),
           (''archiveReason'', JStr ''revival_failed'')]"

definition deleteMachineUpdate :: jsvalue where
  "deleteMachineUpdate =
     JObj [(''t'', JStr ''delete-machine''), (''machineId'', JStr ''machine_laptop1'')]"

text \<open>Fixtures of the accessor tests (helpers.test.ts), with a fixed clock.\<close>

definition newMachineUpdate :: jsvalue where
  "newMachineUpdate =
     JObj [(''t'', JStr ''new-machine''),
           (''machineId'', JStr ''machine-abc''),
           (''seq'', JNum 1),
           (''metadata'', JStr ''encrypted-metadata''),
           (''metadataVersion'', JNum 1),
           (''daemonState'', JNull),
           (''daemonStateVersion'', JNum 0),
           (''dataEncryptionKey'', JNull),
           (''active'', JBool True),
           (''activeAt'', JNum 1700000000000),
           (''createdAt'', JNum 1700000000000),
           (''updatedAt'', JNum 1700000000000)]"

definition accountUpdate :: jsvalue where
  "accountUpdate =
     JObj [(''t'', JStr ''update-account''), (''id'', JStr ''user-123''),
           (''firstName'', JStr ''Jane'')]"

definition activityEphemeral :: jsvalue where
  "activityEphemeral =
     JObj [(''type'', JStr ''activity''),
           (''sid'', JStr ''session-activity''),
           (''active'', JBool True),
           (''activeAt'', JNum 1700000000000),
           (''thinking'', JBool False)]"

text \<open>
  A usage event identified by \<open>sid\<close> as in the tests, with complete token and cost
  records.
\<close>

definition usageEphemeral :: jsvalue where
  "usageEphemeral =
     JObj [(''type'', JStr ''usage''),
           (''sid'', JStr ''session-usage''),
           (''key'', JStr ''cost''),
           (''timestamp'', JNum 1700000000000),
           (''tokens'', JObj [(''total'', JNum 100), (''input'', JNum 60), (''output'', JNum 40),
                             (''cache_creation'', JNum 0), (''cache_read'', JNum 0)]),
           (''cost'', JObj [(''total'', JNum (1 / 100)), (''input'', JNum (1 / 200)),
                           (''output'', JNum (1 / 200))])]"

definition machineActivityEphemeral :: jsvalue where
  "machineActivityEphemeral =
     JObj [(''type'', JStr ''machine-activity''),
           (''machineId'', JStr ''machine-activity-id''),
           (''active'', JBool True),
           (''activeAt'', JNum 1700000000000)]"

definition machineDisconnectedEphemeral :: jsvalue where
  "machineDisconnectedEphemeral =
     JObj [(''type'', JStr ''machine-disconnected''),
           (''machineId'', JStr ''machine-disconnected-id''),
           (''reason'', JStr ''disconnected_by_user''),
           (''timestamp'', JNum 1700000000000)]"

text \<open>The \<open>new-session\<close> fixture of the accessor tests, for a given identifier.\<close>

definition new_session :: "string \<Rightarrow> jsvalue" where
  "new_session sid =
     JObj [(''t'', JStr ''new-session''),
           (''sid'', JStr sid),
           (''seq'', JNum 1),
           (''metadata'', JStr ''encrypted-metadata''),
           (''metadataVersion'', JNum 1),
           (''agentState'', JNull),
           (''agentStateVersion'', JNum 0),
           (''dataEncryptionKey'', JNull),
           (''active'', JBool True),
           (''activeAt'', JNum 1700000000000),
           (''createdAt'', JNum 1700000000000),
           (''updatedAt'', JNum 1700000000000)]"

text \<open>An activity event as the ephemeral module declares it: the identifier is \<open>id\<close>.\<close>

definition activityEphemeral_id :: jsvalue where
  "activityEphemeral_id =
     JObj [(''type'', JStr ''activity''),
           (''id'', JStr ''session-activity''),
           (''active'', JBool True),
           (''activeAt'', JNum 1700000000000),
           (''thinking'', JBool False)]"

text \<open>
  Two ephemeral inputs: one whose \<open>type\<close> is no known variant, and an \<open>activity\<close>
  event that lacks its other properties.
\<close>

definition unknownEphemeral :: jsvalue where
  "unknownEphemeral = JObj [(''type'', JStr ''bogus-variant''), (''foo'', JStr ''bar'')]"

definition malformedActivity :: jsvalue where
  "malformedActivity = JObj [(''type'', JStr ''activity'')]"

text \<open>An envelope around a body that is no update of the protocol.\<close>

definition bogusPayload :: jsvalue where
  "bogusPayload =
     JObj [(''id'', JStr ''upd-1''),
           (''seq'', JNum 7),
           (''body'', bogusUpdate),
           (''createdAt'', JNum 1700000000000)]"

text \<open>An envelope whose body has no \<open>t\<close>.\<close>

definition payloadWithoutTag :: jsvalue where
  "payloadWithoutTag =
     JObj [(''id'', JStr ''upd-1''),
           (''seq'', JNum 7),
           (''body'', JObj [(''foo'', JStr ''bar'')]),
           (''createdAt'', JNum 1700000000000)]"

text \<open>Limits used in examples; the lemmas hold for every choice of limits.\<close>

definition exampleLimits :: STRING_LIMITS where
  "exampleLimits = \<lparr>ID_MAX = 256, ENCRYPTED_STATE_MAX = 65536, DATA_ENCRYPTION_KEY_MAX = 1024\<rparr>"

section \<open>Properties of the validation library\<close>

lemmas zod_eval =
  zparse.simps safeParse_def mergeObject_def mergeArray_def merge_status_def OK_def
  INVALID_def status_of_def issues_of_def value_of_def nested_def property_def has_key_def
  optionsMap_def ZNullish_def

lemmas update_schema_defs =
  ApiUpdateSchema_def ApiUpdateOptions_def ApiUpdateNewMessageSchema_def ApiMessageSchema_def
  EncryptedContentSchema_def ApiUpdateNewSessionSchema_def ApiDeleteSessionSchema_def
  ApiUpdateSessionStateSchema_def ApiUpdateAccountSchema_def ApiUpdateMachineStateSchema_def
  ApiNewMachineSchema_def ApiNewArtifactSchema_def ApiUpdateArtifactSchema_def
  ApiDeleteArtifactSchema_def ApiRelationshipUpdatedSchema_def ApiNewFeedPostSchema_def
  ApiKvBatchUpdateSchema_def

lemmas ephemeral_schema_defs =
  ApiEphemeralUpdateSchema_def ApiEphemeralUpdateOptions_def
  ApiEphemeralActivityUpdateSchema_def
  ApiEphemeralUsageUpdateSchema_def ApiEphemeralMachineActivityUpdateSchema_def
  ApiEphemeralMachineStatusUpdateSchema_def

declare zparse.simps [simp del]

lemma status_nested [simp]: "status_of (nested k r) = status_of r"
  by (simp add: nested_def status_of_def)

lemma value_nested [simp]: "value_of (nested k r) = value_of r"
  by (simp add: nested_def value_of_def)

lemma status_INVALID [simp]: "status_of (INVALID is) = aborted"
  by (simp add: INVALID_def status_of_def)

lemma status_OK [simp]: "status_of (OK v) = valid"
  by (simp add: OK_def status_of_def)

lemma value_OK [simp]: "value_of (OK v) = v"
  by (simp add: OK_def value_of_def)

lemma value_INVALID [simp]: "value_of (INVALID is) = JUndefined"
  by (simp add: INVALID_def value_of_def)

lemma issues_INVALID [simp]: "issues_of (INVALID is) = is"
  by (simp add: INVALID_def issues_of_def)

lemma merge_status_valid:
  "merge_status rs = valid \<longleftrightarrow> (\<forall>r \<in> set rs. status_of r = valid)"
proof
  assume "merge_status rs = valid"
  then have "\<forall>r \<in> set rs. status_of r \<noteq> aborted \<and> status_of r \<noteq> dirty"
    by (auto simp: merge_status_def split: if_splits)
  then show "\<forall>r \<in> set rs. status_of r = valid"
    by (metis status.exhaust)
next
  assume "\<forall>r \<in> set rs. status_of r = valid"
  then show "merge_status rs = valid"
    by (simp add: merge_status_def)
qed

lemma status_mergeObject [simp]:
  "status_of (mergeObject pairs) = merge_status (map (snd \<circ> snd) pairs)"
  by (simp add: mergeObject_def Let_def status_of_def INVALID_def)

lemma value_mergeObject:
  "merge_status (map (snd \<circ> snd) pairs) \<noteq> aborted \<Longrightarrow>
   value_of (mergeObject pairs) =
     JObj (map (\<lambda>(k, _, r). (k, value_of r))
            (filter (\<lambda>(k, alwaysSet, r).
                       k \<noteq> ''__proto__'' \<and> (value_of r \<noteq> JUndefined \<or> alwaysSet)) pairs))"
  by (simp add: mergeObject_def Let_def value_of_def)

lemma value_mergeObject_aborted:
  "merge_status (map (snd \<circ> snd) pairs) = aborted \<Longrightarrow> value_of (mergeObject pairs) = JUndefined"
  by (simp add: mergeObject_def Let_def)

subsection \<open>Literal and string fields\<close>

lemma zparse_literal_valid:
  "status_of (zparse (ZLiteral v) d) = valid \<longleftrightarrow> d = JStr v"
  by (simp add: zparse.simps(4))

lemma zparse_string_JStr:
  "zparse (ZString cs) (JStr s) =
     (if concat (map (run_check s) cs) = [] then valid else dirty,
      concat (map (run_check s) cs), JStr s)"
  by (simp add: zparse.simps(1) Let_def)

lemma zparse_string_other:
  "\<forall>s. d \<noteq> JStr s \<Longrightarrow> zparse (ZString cs) d = INVALID [Issue invalid_type [] []]"
  by (cases d) (auto simp: zparse.simps(1))

lemma zparse_string_not_aborted:
  "status_of (zparse (ZString cs) d) \<noteq> aborted \<longleftrightarrow> (\<exists>s. d = JStr s)"
proof (cases "\<exists>s. d = JStr s")
  case True
  then show ?thesis by (auto simp: zparse_string_JStr status_of_def split: if_splits)
next
  case False
  then show ?thesis by (simp add: zparse_string_other)
qed

lemma zparse_string_value:
  "value_of (zparse (ZString cs) (JStr s)) = JStr s"
  by (simp add: zparse_string_JStr value_of_def)

subsection \<open>Objects\<close>

lemma zparse_object_JObj:
  "zparse (ZObject mode shape) (JObj obj) = mergeObject (object_pairs mode shape obj)"
  by (simp add: zparse.simps(9) object_pairs_def)

lemma zparse_object_other:
  "\<forall>obj. d \<noteq> JObj obj \<Longrightarrow> zparse (ZObject mode shape) d = INVALID [Issue invalid_type [] []]"
  by (cases d) (auto simp: zparse.simps(9))

lemma zparse_object_not_aborted:
  assumes "status_of (zparse (ZObject m shape) d) \<noteq> aborted"
  obtains obj where "d = JObj obj"
  using assms zparse_object_other[of d m shape] by (cases d) auto

lemma object_pairs_field:
  "(k, s) \<in> set shape \<Longrightarrow> nested (Key k) (zparse s (property obj k)) \<in> set (map (snd \<circ> snd) (object_pairs mode shape obj))"
  by (force simp: object_pairs_def)

lemma zparse_object_valid_fields:
  assumes "status_of (zparse (ZObject m shape) (JObj obj)) = valid" and "(k, s) \<in> set shape"
  shows "status_of (zparse s (property obj k)) = valid"
proof -
  from assms(1) have "\<forall>r \<in> set (map (snd \<circ> snd) (object_pairs m shape obj)). status_of r = valid"
    by (simp add: zparse_object_JObj merge_status_valid)
  with object_pairs_field[OF assms(2)] have "status_of (nested (Key k) (zparse s (property obj k))) = valid"
    by blast
  then show ?thesis by simp
qed

lemma zparse_strip_keys:
  assumes "value_of (zparse (ZObject strip shape) d) = JObj out"
  shows "set (map fst out) \<subseteq> set (map fst shape)"
proof (cases "status_of (zparse (ZObject strip shape) d) = aborted")
  case True
  have "value_of (zparse (ZObject strip shape) d) = JUndefined"
  proof (cases "\<exists>obj. d = JObj obj")
    case True
    with \<open>status_of _ = aborted\<close> show ?thesis
      by (auto simp: zparse_object_JObj value_mergeObject_aborted)
  next
    case False
    then show ?thesis by (simp add: zparse_object_other)
  qed
  with assms show ?thesis by simp
next
  case False
  then obtain obj where d: "d = JObj obj" by (rule zparse_object_not_aborted)
  with False have "merge_status (map (snd \<circ> snd) (object_pairs strip shape obj)) \<noteq> aborted"
    by (simp add: zparse_object_JObj)
  from value_mergeObject[OF this] assms d
  have "out = map (\<lambda>(k, _, r). (k, value_of r))
            (filter (\<lambda>(k, alwaysSet, r).
                       k \<noteq> ''__proto__'' \<and> (value_of r \<noteq> JUndefined \<or> alwaysSet))
               (object_pairs strip shape obj))"
    by (simp add: zparse_object_JObj)
  then show ?thesis by (force simp: object_pairs_def)
qed

lemma zparse_object_head:
  assumes "status_of (zparse (ZObject m ((''t'', ZLiteral tag) # rest)) d) = valid"
  shows "\<exists>obj out. d = JObj obj \<and> property obj ''t'' = JStr tag \<and>
           value_of (zparse (ZObject m ((''t'', ZLiteral tag) # rest)) d) = JObj ((''t'', JStr tag) # out)"
proof -
  from assms have "status_of (zparse (ZObject m ((''t'', ZLiteral tag) # rest)) d) \<noteq> aborted"
    by simp
  then obtain obj where d: "d = JObj obj" by (rule zparse_object_not_aborted)
  have "status_of (zparse (ZLiteral tag) (property obj ''t'')) = valid"
    by (rule zparse_object_valid_fields[of m "(''t'', ZLiteral tag) # rest" obj])
       (use assms d in simp_all)
  then have t: "property obj ''t'' = JStr tag" by (simp add: zparse_literal_valid)
  from assms d have "merge_status (map (snd \<circ> snd) (object_pairs m ((''t'', ZLiteral tag) # rest) obj)) \<noteq> aborted"
    by (simp add: zparse_object_JObj)
  from value_mergeObject[OF this] d t show ?thesis
    by (simp add: zparse_object_JObj object_pairs_def zparse.simps(4))
qed

lemma zparse_object_head2:
  assumes "status_of (zparse (ZObject m ((''t'', ZLiteral tag) # (k, ZString cs) # rest)) d) = valid"
    and "k \<noteq> ''__proto__''"
  shows "\<exists>obj s out. d = JObj obj \<and> property obj ''t'' = JStr tag \<and> property obj k = JStr s \<and>
           value_of (zparse (ZObject m ((''t'', ZLiteral tag) # (k, ZString cs) # rest)) d)
             = JObj ((''t'', JStr tag) # (k, JStr s) # out)"
proof -
  from assms(1) have "status_of (zparse (ZObject m ((''t'', ZLiteral tag) # (k, ZString cs) # rest)) d) \<noteq> aborted"
    by simp
  then obtain obj where d: "d = JObj obj" by (rule zparse_object_not_aborted)
  have "status_of (zparse (ZLiteral tag) (property obj ''t'')) = valid"
    by (rule zparse_object_valid_fields[of m "(''t'', ZLiteral tag) # (k, ZString cs) # rest" obj])
       (use assms(1) d in simp_all)
  then have t: "property obj ''t'' = JStr tag" by (simp add: zparse_literal_valid)
  have "status_of (zparse (ZString cs) (property obj k)) = valid"
    by (rule zparse_object_valid_fields[of m "(''t'', ZLiteral tag) # (k, ZString cs) # rest" obj])
       (use assms(1) d in simp_all)
  then have "status_of (zparse (ZString cs) (property obj k)) \<noteq> aborted" by simp
  then obtain s where s: "property obj k = JStr s"
    unfolding zparse_string_not_aborted by blast
  from assms(1) d have "merge_status (map (snd \<circ> snd) (object_pairs m ((''t'', ZLiteral tag) # (k, ZString cs) # rest) obj)) \<noteq> aborted"
    by (simp add: zparse_object_JObj)
  from value_mergeObject[OF this] d t s assms(2) show ?thesis
    by (simp add: zparse_object_JObj object_pairs_def zparse_string_value zparse.simps(4))
qed

subsection \<open>Discriminated unions\<close>

lemma zparse_du_not_aborted:
  assumes "status_of (zparse (ZDiscriminatedUnion disc opts) d) \<noteq> aborted"
  shows "\<exists>obj tag opt. d = JObj obj \<and> property obj disc = JStr tag \<and>
           map_of (optionsMap disc opts) tag = Some opt \<and>
           zparse (ZDiscriminatedUnion disc opts) d = zparse opt d"
  using assms by (auto simp: zparse.simps(11) split: jsvalue.splits option.splits)

lemma zparse_du_unknown:
  assumes "property obj disc \<notin> set (map JStr (map fst (optionsMap disc opts)))"
  shows "zparse (ZDiscriminatedUnion disc opts) (JObj obj) =
           INVALID [Issue invalid_union_discriminator [Key disc] []]"
proof (cases "\<exists>tag. property obj disc = JStr tag")
  case True
  then obtain tag where tag: "property obj disc = JStr tag" by blast
  with assms have "tag \<notin> fst ` set (optionsMap disc opts)" by auto
  then have "map_of (optionsMap disc opts) tag = None"
    by (simp add: map_of_eq_None_iff)
  with tag show ?thesis by (simp add: zparse.simps(11))
next
  case False
  then show ?thesis by (cases "property obj disc") (simp_all add: zparse.simps(11))
qed

subsection \<open>Results of \<open>safeParse\<close>\<close>

lemma safeParse_Success_iff:
  "safeParse s d = Success u \<longleftrightarrow> status_of (zparse s d) = valid \<and> value_of (zparse s d) = u"
  by (simp add: safeParse_def Let_def)

lemma safeParse_Failure_iff:
  "safeParse s d = Failure is \<longleftrightarrow> status_of (zparse s d) \<noteq> valid \<and> issues_of (zparse s d) = is"
  by (simp add: safeParse_def Let_def)

lemma zparse_string_valid:
  "status_of (zparse (ZString cs) d) = valid \<longleftrightarrow>
     (\<exists>s. d = JStr s \<and> (\<forall>c \<in> set cs. run_check s c = []))"
proof (cases "\<exists>s. d = JStr s")
  case True
  then show ?thesis by (auto simp: zparse_string_JStr status_of_def split: if_splits)
next
  case False
  then show ?thesis by (simp add: zparse_string_other)
qed

lemma zparse_object_valid_iff:
  "status_of (zparse (ZObject m shape) (JObj obj)) = valid \<longleftrightarrow>
     (\<forall>(k, s) \<in> set shape. status_of (zparse s (property obj k)) = valid)"
proof
  assume "status_of (zparse (ZObject m shape) (JObj obj)) = valid"
  then show "\<forall>(k, s) \<in> set shape. status_of (zparse s (property obj k)) = valid"
    by (auto intro: zparse_object_valid_fields)
next
  assume "\<forall>(k, s) \<in> set shape. status_of (zparse s (property obj k)) = valid"
  then have "\<forall>r \<in> set (map (snd \<circ> snd) (object_pairs m shape obj)). status_of r = valid"
    by (cases m) (auto simp: object_pairs_def)
  then show "status_of (zparse (ZObject m shape) (JObj obj)) = valid"
    by (simp add: zparse_object_JObj merge_status_valid)
qed

subsection \<open>Tagged objects\<close>

lemma property_absent:
  assumes "k \<notin> set (map fst out)"
  shows "property out k = JUndefined"
proof -
  from assms have "map_of out k = None"
    by (simp add: map_of_eq_None_iff)
  then show ?thesis by (simp add: property_def)
qed

lemma zparse_strip_absent:
  assumes "status_of (zparse (ZObject strip shape) d) = valid"
    and "k \<notin> set (map fst shape)"
  shows "get_prop (value_of (zparse (ZObject strip shape) d)) k = JUndefined"
proof -
  from assms(1) have "status_of (zparse (ZObject strip shape) d) \<noteq> aborted" by simp
  then obtain obj where d: "d = JObj obj" by (rule zparse_object_not_aborted)
  with assms(1) have "merge_status (map (snd \<circ> snd) (object_pairs strip shape obj)) \<noteq> aborted"
    by (simp add: zparse_object_JObj)
  from value_mergeObject[OF this] d obtain out where
    out: "value_of (zparse (ZObject strip shape) d) = JObj out"
    by (simp add: zparse_object_JObj)
  from zparse_strip_keys[OF out] assms(2) have "k \<notin> set (map fst out)" by blast
  with out show ?thesis by (simp add: property_absent)
qed

lemma tagged_object:
  assumes "opt = ZObject strip ((''t'', ZLiteral tag) # rest)"
    and "status_of (zparse opt v) = valid"
  shows "get_prop (value_of (zparse opt v)) ''t'' = JStr tag \<and> get_prop v ''t'' = JStr tag"
  using zparse_object_head[of strip tag rest v] assms
  by (auto simp: property_def)

lemma tagged_carrier:
  assumes "opt = ZObject strip ((''t'', ZLiteral tag) # (k, ZString cs) # rest)"
    and "status_of (zparse opt v) = valid" and "k \<noteq> ''t''" and "k \<noteq> ''__proto__''"
  shows "\<exists>s. get_prop (value_of (zparse opt v)) k = JStr s \<and> get_prop v k = JStr s"
  using zparse_object_head2[of strip tag k cs rest v] assms
  by (auto simp: property_def)

lemma tagged_absent:
  assumes "opt = ZObject strip shape"
    and "status_of (zparse opt v) = valid" and "k \<notin> set (map fst shape)"
  shows "get_prop (value_of (zparse opt v)) k = JUndefined"
  using zparse_strip_absent[of shape v k] assms by simp

subsection \<open>The members of the union of updates\<close>

lemma ApiUpdate_optionsMap:
  "optionsMap ''t'' (ApiUpdateOptions L) =
     [(''new-message'', ApiUpdateNewMessageSchema),
      (''new-session'', ApiUpdateNewSessionSchema L),
      (''delete-session'', ApiDeleteSessionSchema),
      (''update-session'', ApiUpdateSessionStateSchema L),
      (''update-account'', ApiUpdateAccountSchema),
      (''update-machine'', ApiUpdateMachineStateSchema),
      (''new-machine'', ApiNewMachineSchema),
      (''new-artifact'', ApiNewArtifactSchema),
      (''update-artifact'', ApiUpdateArtifactSchema),
      (''delete-artifact'', ApiDeleteArtifactSchema),
      (''relationship-updated'', ApiRelationshipUpdatedSchema),
      (''new-feed-post'', ApiNewFeedPostSchema),
      (''kv-batch-update'', ApiKvBatchUpdateSchema)]"
  by (simp add: optionsMap_def ApiUpdateOptions_def ApiUpdateNewMessageSchema_def
        ApiUpdateNewSessionSchema_def ApiDeleteSessionSchema_def
        ApiUpdateSessionStateSchema_def ApiUpdateAccountSchema_def ApiUpdateMachineStateSchema_def
        ApiNewMachineSchema_def ApiNewArtifactSchema_def ApiUpdateArtifactSchema_def
        ApiDeleteArtifactSchema_def ApiRelationshipUpdatedSchema_def ApiNewFeedPostSchema_def
        ApiKvBatchUpdateSchema_def)

lemma ApiUpdate_tags:
  "map fst (optionsMap ''t'' (ApiUpdateOptions L)) = ApiUpdateType"
  by (simp add: ApiUpdate_optionsMap ApiUpdateType_def)

lemma validated_update:
  assumes "safeParse (ApiUpdateSchema L) v = Success u"
  shows "\<exists>tag. tag \<in> set ApiUpdateType \<and> get_prop v ''t'' = JStr tag \<and> get_prop u ''t'' = JStr tag \<and>
     (if tag \<in> {''new-message'', ''new-session'', ''delete-session'', ''update-session''}
      then \<exists>s. get_prop u ''sid'' = JStr s \<and> get_prop v ''sid'' = JStr s
      else get_prop u ''sid'' = JUndefined) \<and>
     (if tag \<in> {''update-machine'', ''new-machine''}
      then \<exists>s. get_prop u ''machineId'' = JStr s \<and> get_prop v ''machineId'' = JStr s
      else get_prop u ''machineId'' = JUndefined)"
proof -
  from assms have st: "status_of (zparse (ApiUpdateSchema L) v) = valid"
    and u: "u = value_of (zparse (ApiUpdateSchema L) v)"
    by (simp_all add: safeParse_Success_iff)
  from st have "status_of (zparse (ZDiscriminatedUnion ''t'' (ApiUpdateOptions L)) v) \<noteq> aborted"
    by (simp add: ApiUpdateSchema_def)
  from zparse_du_not_aborted[OF this] obtain obj tag opt where
    v: "v = JObj obj" and t: "property obj ''t'' = JStr tag"
    and opt: "map_of (optionsMap ''t'' (ApiUpdateOptions L)) tag = Some opt"
    and eq: "zparse (ApiUpdateSchema L) v = zparse opt v"
    by (auto simp: ApiUpdateSchema_def)
  from st eq have valid: "status_of (zparse opt v) = valid" by simp
  from u eq have u': "u = value_of (zparse opt v)" by simp
  from opt have mem: "(tag, opt) \<in> set (optionsMap ''t'' (ApiUpdateOptions L))"
    by (rule map_of_SomeD)
  then have tag: "tag \<in> set ApiUpdateType"
    unfolding ApiUpdate_tags[symmetric, of L] by force
  define Q where "Q = (\<lambda>tag opt. status_of (zparse opt v) = valid \<longrightarrow>
     get_prop (value_of (zparse opt v)) ''t'' = JStr tag \<and>
     (if tag \<in> {''new-message'', ''new-session'', ''delete-session'', ''update-session''}
      then \<exists>s. get_prop (value_of (zparse opt v)) ''sid'' = JStr s \<and> get_prop v ''sid'' = JStr s
      else get_prop (value_of (zparse opt v)) ''sid'' = JUndefined) \<and>
     (if tag \<in> {''update-machine'', ''new-machine''}
      then \<exists>s. get_prop (value_of (zparse opt v)) ''machineId'' = JStr s \<and> get_prop v ''machineId'' = JStr s
      else get_prop (value_of (zparse opt v)) ''machineId'' = JUndefined))"
  have session: "Q tg (ZObject strip ((''t'', ZLiteral tg) # (''sid'', ZString cs) # rest))"
    if "tg \<in> {''new-message'', ''new-session'', ''delete-session'', ''update-session''}" "tg \<notin> {''update-machine'', ''new-machine''}" "''machineId'' \<notin> set (map fst rest)"
    for tg cs rest
    unfolding Q_def
    using tagged_object[OF refl, of tg _ v] tagged_carrier[OF refl, of tg "''sid''" cs rest v]
      tagged_absent[OF refl, of "(''t'', ZLiteral tg) # (''sid'', ZString cs) # rest" v "''machineId''"] that
    by simp
  have machine: "Q tg (ZObject strip ((''t'', ZLiteral tg) # (''machineId'', ZString cs) # rest))"
    if "tg \<notin> {''new-message'', ''new-session'', ''delete-session'', ''update-session''}" "tg \<in> {''update-machine'', ''new-machine''}" "''sid'' \<notin> set (map fst rest)"
    for tg cs rest
    unfolding Q_def
    using tagged_object[OF refl, of tg _ v] tagged_carrier[OF refl, of tg "''machineId''" cs rest v]
      tagged_absent[OF refl, of "(''t'', ZLiteral tg) # (''machineId'', ZString cs) # rest" v "''sid''"] that
    by simp
  have other: "Q tg (ZObject strip ((''t'', ZLiteral tg) # rest))"
    if "tg \<notin> {''new-message'', ''new-session'', ''delete-session'', ''update-session''}" "tg \<notin> {''update-machine'', ''new-machine''}" "''sid'' \<notin> set (map fst rest)"
       "''machineId'' \<notin> set (map fst rest)"
    for tg rest
    unfolding Q_def
    using tagged_object[OF refl, of tg rest v]
      tagged_absent[OF refl, of "(''t'', ZLiteral tg) # rest" v "''sid''"]
      tagged_absent[OF refl, of "(''t'', ZLiteral tg) # rest" v "''machineId''"] that
    by simp
  have q1: "Q ''new-message'' ApiUpdateNewMessageSchema"
    unfolding ApiUpdateNewMessageSchema_def
    by (rule session) simp_all
  have q2: "Q ''new-session'' (ApiUpdateNewSessionSchema L)"
    unfolding ApiUpdateNewSessionSchema_def
    by (rule session) simp_all
  have q3: "Q ''delete-session'' ApiDeleteSessionSchema"
    unfolding ApiDeleteSessionSchema_def
    by (rule session) simp_all
  have q4: "Q ''update-session'' (ApiUpdateSessionStateSchema L)"
    unfolding ApiUpdateSessionStateSchema_def
    by (rule session) simp_all
  have q5: "Q ''update-account'' ApiUpdateAccountSchema"
    unfolding ApiUpdateAccountSchema_def
    by (rule other) simp_all
  have q6: "Q ''update-machine'' ApiUpdateMachineStateSchema"
    unfolding ApiUpdateMachineStateSchema_def
    by (rule machine) simp_all
  have q7: "Q ''new-machine'' ApiNewMachineSchema"
    unfolding ApiNewMachineSchema_def
    by (rule machine) simp_all
  have q8: "Q ''new-artifact'' ApiNewArtifactSchema"
    unfolding ApiNewArtifactSchema_def
    by (rule other) simp_all
  have q9: "Q ''update-artifact'' ApiUpdateArtifactSchema"
    unfolding ApiUpdateArtifactSchema_def
    by (rule other) simp_all
  have q10: "Q ''delete-artifact'' ApiDeleteArtifactSchema"
    unfolding ApiDeleteArtifactSchema_def
    by (rule other) simp_all
  have q11: "Q ''relationship-updated'' ApiRelationshipUpdatedSchema"
    unfolding ApiRelationshipUpdatedSchema_def
    by (rule other) simp_all
  have q12: "Q ''new-feed-post'' ApiNewFeedPostSchema"
    unfolding ApiNewFeedPostSchema_def
    by (rule other) simp_all
  have q13: "Q ''kv-batch-update'' ApiKvBatchUpdateSchema"
    unfolding ApiKvBatchUpdateSchema_def
    by (rule other) simp_all
  have "\<forall>(tg, opt) \<in> set (optionsMap ''t'' (ApiUpdateOptions L)). Q tg opt"
    unfolding ApiUpdate_optionsMap
    using q1 q2 q3 q4 q5 q6 q7 q8 q9 q10 q11 q12 q13 by simp
  with mem have "Q tag opt" by blast
  with valid u' have "get_prop u ''t'' = JStr tag \<and>
     (if tag \<in> {''new-message'', ''new-session'', ''delete-session'', ''update-session''}
      then \<exists>s. get_prop u ''sid'' = JStr s \<and> get_prop v ''sid'' = JStr s
      else get_prop u ''sid'' = JUndefined) \<and>
     (if tag \<in> {''update-machine'', ''new-machine''}
      then \<exists>s. get_prop u ''machineId'' = JStr s \<and> get_prop v ''machineId'' = JStr s
      else get_prop u ''machineId'' = JUndefined)"
    by (simp add: Q_def)
  moreover from v t have "get_prop v ''t'' = JStr tag" by simp
  ultimately show ?thesis using tag by blast
qed


lemma variants_with_sid:
  "variants_with ''sid'' ''t'' (ApiUpdateOptions L) =
     [''new-message'', ''new-session'', ''delete-session'', ''update-session'']"
  by (simp add: variants_with_def ApiUpdate_optionsMap ApiUpdateNewMessageSchema_def
        ApiUpdateNewSessionSchema_def ApiDeleteSessionSchema_def
        ApiUpdateSessionStateSchema_def ApiUpdateAccountSchema_def ApiUpdateMachineStateSchema_def
        ApiNewMachineSchema_def ApiNewArtifactSchema_def ApiUpdateArtifactSchema_def
        ApiDeleteArtifactSchema_def ApiRelationshipUpdatedSchema_def ApiNewFeedPostSchema_def
        ApiKvBatchUpdateSchema_def)

lemma variants_with_machineId:
  "variants_with ''machineId'' ''t'' (ApiUpdateOptions L) = [''update-machine'', ''new-machine'']"
  by (simp add: variants_with_def ApiUpdate_optionsMap ApiUpdateNewMessageSchema_def
        ApiUpdateNewSessionSchema_def ApiDeleteSessionSchema_def
        ApiUpdateSessionStateSchema_def ApiUpdateAccountSchema_def ApiUpdateMachineStateSchema_def
        ApiNewMachineSchema_def ApiNewArtifactSchema_def ApiUpdateArtifactSchema_def
        ApiDeleteArtifactSchema_def ApiRelationshipUpdatedSchema_def ApiNewFeedPostSchema_def
        ApiKvBatchUpdateSchema_def)

section \<open>The encrypted-content envelope and the first scenario\<close>

lemma EncryptedContent_shape:
  "(\<exists>u. safeParse EncryptedContentSchema d = Success u) =
   (\<exists>obj c. d = JObj obj \<and> property obj ''t'' = JStr ''encrypted'' \<and> property obj ''c'' = JStr c)"
proof (cases "\<exists>obj. d = JObj obj")
  case True
  then obtain obj where d: "d = JObj obj" by blast
  then show ?thesis
    by (simp add: safeParse_Success_iff EncryptedContentSchema_def zparse_object_valid_iff
          zparse_literal_valid zparse_string_valid)
next
  case False
  then show ?thesis
    by (simp add: safeParse_Success_iff EncryptedContentSchema_def zparse_object_other)
qed


text \<open>
  C1 (counterexample). The value of the specification's first scenario wraps its content as
  \<open>{tag, ciphertext}\<close>. The message schema requires the envelope of
  \<open>EncryptedContentSchema\<close>, whose properties are \<open>t\<close> and \<open>c\<close>, so the value is
  rejected whatever the string limits are.
\<close>

theorem scenario1_rejected:
  "\<forall>L. safeParse (ApiUpdateSchema L) scenario1 =
     Failure [Issue invalid_literal [Key ''message'', Key ''content'', Key ''t''] [],
              Issue invalid_type [Key ''message'', Key ''content'', Key ''c''] []]"
  by (simp add: zod_eval update_schema_defs scenario1_def new_message_def)

text \<open>
  C1 (as amended). The envelope accepted inside a \<open>new-message\<close> update has the shape
  \<open>{ t: "encrypted", c: string }\<close>: validating
  \<open>{t:"new-message", sid:"session-789", message:{id:"msg-001", seq:1,
  content:{t:"encrypted", c:"abc"}, createdAt:1700000000000}}\<close> against the union of
  updates succeeds and returns the value unchanged; on the result \<open>tryGetSessionId\<close>
  returns \<open>"session-789"\<close> and \<open>hasMachineId\<close> returns false.
\<close>

theorem new_message_scenario:
  "(\<exists>u. safeParse EncryptedContentSchema d = Success u) =
     (\<exists>obj c. d = JObj obj \<and> property obj ''t'' = JStr ''encrypted'' \<and>
              property obj ''c'' = JStr c) \<and>
   safeParse (ApiUpdateSchema L) newMessageUpdate = Success newMessageUpdate \<and>
   tryGetSessionId newMessageUpdate = Some ''session-789'' \<and>
   hasMachineId newMessageUpdate = False"
proof -
  have "safeParse (ApiUpdateSchema L) newMessageUpdate = Success newMessageUpdate"
    by (simp add: zod_eval update_schema_defs newMessageUpdate_def new_message_def)
  moreover have "tryGetSessionId newMessageUpdate = Some ''session-789''"
    by (simp add: tryGetSessionId_def hasSessionId_def SESSION_ID_UPDATE_TYPES_def
          newMessageUpdate_def new_message_def property_def)
  moreover have "hasMachineId newMessageUpdate = False"
    by (simp add: hasMachineId_def MACHINE_ID_UPDATE_TYPES_def
          newMessageUpdate_def new_message_def property_def)
  ultimately show ?thesis
    using EncryptedContent_shape [of d] by simp
qed

section \<open>Variants missing from the unions\<close>

text \<open>
  C3. The specification has the ephemeral \<open>activity\<close> and \<open>usage\<close> events carry the
  session identifier as \<open>sid\<close>, the \<open>machine-activity\<close>, \<open>machine-status\<close> and
  \<open>machine-disconnected\<close> events carry the machine identifier as \<open>machineId\<close>, and
  \<open>machine-disconnected\<close> be a member of the union; the accessor tests build their
  fixtures that way. The ephemeral module requires \<open>id\<close> for \<open>activity\<close>, \<open>usage\<close>
  and \<open>machine-activity\<close> and has no \<open>machine-disconnected\<close> member: the test
  fixtures are rejected, and an \<open>activity\<close> event is accepted with \<open>id\<close> and no \<open>sid\<close>.
\<close>

theorem ephemeral_test_fixtures_rejected:
  "safeParse ApiEphemeralActivityUpdateSchema activityEphemeral =
     Failure [Issue invalid_type [Key ''id''] []] \<and>
   safeParse ApiEphemeralUsageUpdateSchema usageEphemeral =
     Failure [Issue invalid_type [Key ''id''] []] \<and>
   safeParse ApiEphemeralMachineActivityUpdateSchema machineActivityEphemeral =
     Failure [Issue invalid_type [Key ''id''] []] \<and>
   safeParse ApiEphemeralUpdateSchema activityEphemeral_id = Success activityEphemeral_id \<and>
   (\<exists>errs. safeParse ApiEphemeralUpdateSchema activityEphemeral =
      Failure [Issue invalid_union [] errs]) \<and>
   (\<exists>errs. safeParse ApiEphemeralUpdateSchema machineActivityEphemeral =
      Failure [Issue invalid_union [] errs]) \<and>
   (\<exists>errs. safeParse ApiEphemeralUpdateSchema machineDisconnectedEphemeral =
      Failure [Issue invalid_union [] errs])"
proof -
  have "safeParse ApiEphemeralActivityUpdateSchema activityEphemeral =
     Failure [Issue invalid_type [Key ''id''] []]"
    by (simp add: zod_eval ephemeral_schema_defs activityEphemeral_def)
  moreover have "safeParse ApiEphemeralUsageUpdateSchema usageEphemeral =
     Failure [Issue invalid_type [Key ''id''] []]"
    by (simp add: zod_eval ephemeral_schema_defs usageEphemeral_def)
  moreover have "safeParse ApiEphemeralMachineActivityUpdateSchema machineActivityEphemeral =
     Failure [Issue invalid_type [Key ''id''] []]"
    by (simp add: zod_eval ephemeral_schema_defs machineActivityEphemeral_def)
  moreover have "safeParse ApiEphemeralUpdateSchema activityEphemeral_id = Success activityEphemeral_id"
    by (simp add: zod_eval ephemeral_schema_defs activityEphemeral_id_def)
  moreover have "\<exists>errs. safeParse ApiEphemeralUpdateSchema activityEphemeral =
      Failure [Issue invalid_union [] errs]"
    by (simp add: zod_eval ephemeral_schema_defs activityEphemeral_def)
  moreover have "\<exists>errs. safeParse ApiEphemeralUpdateSchema machineActivityEphemeral =
      Failure [Issue invalid_union [] errs]"
    by (simp add: zod_eval ephemeral_schema_defs machineActivityEphemeral_def)
  moreover have "\<exists>errs. safeParse ApiEphemeralUpdateSchema machineDisconnectedEphemeral =
      Failure [Issue invalid_union [] errs]"
    by (simp add: zod_eval ephemeral_schema_defs machineDisconnectedEphemeral_def)
  ultimately show ?thesis by blast
qed


text \<open>
  C4. The specification lists \<open>archive-session\<close> and \<open>delete-machine\<close> among the
  discriminator values of the union of updates. Their schemas exist and accept the
  examples of their own doc comments (when the identifier fits \<open>ID_MAX\<close>), but the
  union does not list them: it rejects both examples as unknown discriminators.
\<close>

theorem archive_session_and_delete_machine_rejected:
  "safeParse (ApiUpdateSchema L) archiveSessionUpdate =
     Failure [Issue invalid_union_discriminator [Key ''t''] []] \<and>
   safeParse (ApiUpdateSchema L) deleteMachineUpdate =
     Failure [Issue invalid_union_discriminator [Key ''t''] []] \<and>
   safeParse (ApiArchiveSessionSchema L) archiveSessionUpdate =
     (if 14 \<le> ID_MAX L then Success archiveSessionUpdate
      else Failure [Issue too_big [Key ''sid''] []]) \<and>
   safeParse (ApiDeleteMachineSchema L) deleteMachineUpdate =
     (if 15 \<le> ID_MAX L then Success deleteMachineUpdate
      else Failure [Issue too_big [Key ''machineId''] []])"
proof -
  have "safeParse (ApiUpdateSchema L) archiveSessionUpdate =
     Failure [Issue invalid_union_discriminator [Key ''t''] []]"
    by (simp add: zod_eval update_schema_defs archiveSessionUpdate_def)
  moreover have "safeParse (ApiUpdateSchema L) deleteMachineUpdate =
     Failure [Issue invalid_union_discriminator [Key ''t''] []]"
    by (simp add: zod_eval update_schema_defs deleteMachineUpdate_def)
  moreover have "safeParse (ApiArchiveSessionSchema L) archiveSessionUpdate =
     (if 14 \<le> ID_MAX L then Success archiveSessionUpdate
      else Failure [Issue too_big [Key ''sid''] []])"
    by (simp add: zod_eval ApiArchiveSessionSchema_def ArchiveReasonSchema_def archiveSessionUpdate_def)
  moreover have "safeParse (ApiDeleteMachineSchema L) deleteMachineUpdate =
     (if 15 \<le> ID_MAX L then Success deleteMachineUpdate
      else Failure [Issue too_big [Key ''machineId''] []])"
    by (simp add: zod_eval ApiDeleteMachineSchema_def deleteMachineUpdate_def)
  ultimately show ?thesis by simp
qed


section \<open>String limits\<close>

text \<open>
  C6. The specification bounds every identifier of every update. The \<open>sid\<close> of a
  \<open>new-message\<close> update is a plain string: an identifier one character longer than
  \<open>ID_MAX\<close> validates and is returned whole. The same identifier in a \<open>new-session\<close>
  update, whose \<open>sid\<close> is bounded, fails with \<open>too_big\<close> at \<open>sid\<close>.
\<close>

theorem new_message_sid_unbounded:
  "safeParse (ApiUpdateSchema L)
     (new_message (replicate (Suc (ID_MAX L)) CHR ''x'')
        (JObj [(''t'', JStr ''encrypted''), (''c'', JStr ''abc'')])) =
   Success (new_message (replicate (Suc (ID_MAX L)) CHR ''x'')
        (JObj [(''t'', JStr ''encrypted''), (''c'', JStr ''abc'')])) \<and>
   safeParse (ApiUpdateSchema L) (new_session (replicate (Suc (ID_MAX L)) CHR ''x'')) =
   Failure (Issue too_big [Key ''sid''] [] #
            (if 18 \<le> ENCRYPTED_STATE_MAX L then [] else [Issue too_big [Key ''metadata''] []]))"
proof -
  have "safeParse (ApiUpdateSchema L) (new_message sid (JObj [(''t'', JStr ''encrypted''), (''c'', JStr ''abc'')]))
     = Success (new_message sid (JObj [(''t'', JStr ''encrypted''), (''c'', JStr ''abc'')]))" for sid
    by (simp add: zod_eval update_schema_defs new_message_def)
  moreover have "safeParse (ApiUpdateSchema L) (new_session (replicate (Suc (ID_MAX L)) CHR ''x'')) =
   Failure (Issue too_big [Key ''sid''] [] #
            (if 18 \<le> ENCRYPTED_STATE_MAX L then [] else [Issue too_big [Key ''metadata''] []]))"
    by (simp add: zod_eval update_schema_defs new_session_def)
  ultimately show ?thesis by simp
qed


section \<open>Identifiers that the lint rule skips\<close>

text \<open>
  C10. For every identifier name that contains the substring \<open>GitHub\<close>,
  \<open>hasIncorrectGithubCasing\<close> returns false, so no visitor of the rule reports it, even
  when the name also contains the incorrect \<open>Github\<close>.
\<close>

theorem github_casing_skips_mixed:
  assumes "str_includes name ''GitHub''"
  shows "hasIncorrectGithubCasing name = False \<and> reportIncorrectCasing name = None \<and>
         visit node (Some name) = None"
proof -
  from assms have "hasIncorrectGithubCasing name = False"
    by (simp add: hasIncorrectGithubCasing_def)
  then show ?thesis
    by (simp add: reportIncorrectCasing_def visit_def)
qed

text \<open>
  The name \<open>GitHubToGithubSync\<close> contains both spellings and the regular expression
  matches it; the rule does not report it.
\<close>

theorem github_casing_skips_mixed_witness:
  "str_includes ''GitHubToGithubSync'' ''GitHub'' \<and>
   str_includes ''GitHubToGithubSync'' ''Github'' \<and>
   regex_test ''GitHubToGithubSync'' \<and>
   hasIncorrectGithubCasing ''GitHubToGithubSync'' = False \<and>
   reportIncorrectCasing ''GitHubToGithubSync'' = None \<and>
   visit TSInterfaceDeclaration (Some ''GitHubToGithubSync'') = None"
proof -
  have inc: "str_includes ''GitHubToGithubSync'' ''GitHub''" by simp
  have "str_includes ''GitHubToGithubSync'' ''Github''" by simp
  moreover have "regex_test ''GitHubToGithubSync''"
    by (simp add: matches_here_def canonicalize_def)
  ultimately show ?thesis
    using inc github_casing_skips_mixed [OF inc, of TSInterfaceDeclaration] by simp
qed


section \<open>Discriminator exhaustiveness of the union of updates\<close>

text \<open>
  C2. For every input value, if validation against the union of updates succeeds then
  the value's \<open>t\<close> property is one of the known variant tags; and for every input
  object whose \<open>t\<close> value is not a known tag, validation fails with the single issue
  \<open>invalid_union_discriminator\<close> at \<open>t\<close>, not with a shape violation. (A value
  that is no object has no \<open>t\<close>; it is rejected with \<open>invalid_type\<close> before the
  discriminator is read.)
\<close>

theorem update_discriminator_exhaustive:
  "(safeParse (ApiUpdateSchema L) v = Success u \<longrightarrow>
      (\<exists>tag \<in> set ApiUpdateType. get_prop v ''t'' = JStr tag)) \<and>
   (get_prop (JObj obj) ''t'' \<notin> set (map JStr ApiUpdateType) \<longrightarrow>
      safeParse (ApiUpdateSchema L) (JObj obj) =
        Failure [Issue invalid_union_discriminator [Key ''t''] []]) \<and>
   ((\<forall>obj. v \<noteq> JObj obj) \<longrightarrow>
      safeParse (ApiUpdateSchema L) v = Failure [Issue invalid_type [] []])"
proof (intro conjI impI)
  assume "safeParse (ApiUpdateSchema L) v = Success u"
  from validated_update[OF this] show "\<exists>tag \<in> set ApiUpdateType. get_prop v ''t'' = JStr tag"
    by blast
next
  assume "get_prop (JObj obj) ''t'' \<notin> set (map JStr ApiUpdateType)"
  then have "property obj ''t'' \<notin> set (map JStr (map fst (optionsMap ''t'' (ApiUpdateOptions L))))"
    by (simp add: ApiUpdate_tags)
  from zparse_du_unknown[OF this]
  show "safeParse (ApiUpdateSchema L) (JObj obj) =
        Failure [Issue invalid_union_discriminator [Key ''t''] []]"
    by (simp add: safeParse_Failure_iff ApiUpdateSchema_def)
next
  assume "\<forall>obj. v \<noteq> JObj obj"
  then have "zparse (ZDiscriminatedUnion ''t'' (ApiUpdateOptions L)) v =
      INVALID [Issue invalid_type [] []]"
    by (cases v) (simp_all add: zparse.simps(11))
  then show "safeParse (ApiUpdateSchema L) v = Failure [Issue invalid_type [] []]"
    by (simp add: safeParse_Failure_iff ApiUpdateSchema_def)
qed

text \<open>
  The \<open>new-message\<close> update validates and its tag is known; the value
  \<open>{t:"bogus-variant", foo:"bar"}\<close> fails as an unknown discriminator; a \<open>new-message\<close>
  update without its properties fails with shape violations instead.
\<close>

theorem update_discriminator_exhaustive_witness:
  "safeParse (ApiUpdateSchema exampleLimits) newMessageUpdate = Success newMessageUpdate \<and>
   (\<exists>tag \<in> set ApiUpdateType. get_prop newMessageUpdate ''t'' = JStr tag) \<and>
   get_prop bogusUpdate ''t'' \<notin> set (map JStr ApiUpdateType) \<and>
   safeParse (ApiUpdateSchema exampleLimits) bogusUpdate =
     Failure [Issue invalid_union_discriminator [Key ''t''] []] \<and>
   safeParse (ApiUpdateSchema exampleLimits) (JObj [(''t'', JStr ''new-message'')]) =
     Failure [Issue invalid_type [Key ''sid''] [], Issue invalid_type [Key ''message''] []]"
proof -
  have ok: "safeParse (ApiUpdateSchema exampleLimits) newMessageUpdate = Success newMessageUpdate"
    by (simp add: zod_eval update_schema_defs newMessageUpdate_def new_message_def)
  have bogus: "get_prop (JObj [(''t'', JStr ''bogus-variant''), (''foo'', JStr ''bar'')]) ''t''
      \<notin> set (map JStr ApiUpdateType)"
    by (simp add: ApiUpdateType_def property_def)
  have malformed: "safeParse (ApiUpdateSchema exampleLimits) (JObj [(''t'', JStr ''new-message'')]) =
     Failure [Issue invalid_type [Key ''sid''] [], Issue invalid_type [Key ''message''] []]"
    by (simp add: zod_eval update_schema_defs)
  from update_discriminator_exhaustive
         [of exampleLimits newMessageUpdate newMessageUpdate
            "[(''t'', JStr ''bogus-variant''), (''foo'', JStr ''bar'')]"]
       ok bogus malformed
  show ?thesis by (simp add: bogusUpdate_def)
qed

section \<open>Coverage of the identifier accessors\<close>

text \<open>
  C5. For every validated member of the union of updates: when its variant structurally
  contains a \<open>sid\<close> property, \<open>hasSessionId\<close> is true and \<open>getSessionId\<close> returns
  exactly that property's value; when it does not, \<open>hasSessionId\<close> is false and
  \<open>tryGetSessionId\<close> returns \<^verbatim>\<open>undefined\<close>. The same holds for \<open>machineId\<close> with
  \<open>hasMachineId\<close>, \<open>getMachineId\<close> and \<open>tryGetMachineId\<close>.
\<close>

theorem accessor_coverage:
  assumes "safeParse (ApiUpdateSchema L) v = Success u"
  shows "\<exists>tag. get_prop u ''t'' = JStr tag \<and>
     (tag \<in> set (variants_with ''sid'' ''t'' (ApiUpdateOptions L)) \<longrightarrow>
        hasSessionId u \<and>
        (\<exists>s. get_prop u ''sid'' = JStr s \<and> get_prop v ''sid'' = JStr s \<and>
             getSessionId u = Returns s \<and> tryGetSessionId u = Some s)) \<and>
     (tag \<notin> set (variants_with ''sid'' ''t'' (ApiUpdateOptions L)) \<longrightarrow>
        \<not> hasSessionId u \<and> tryGetSessionId u = None \<and> get_prop u ''sid'' = JUndefined) \<and>
     (tag \<in> set (variants_with ''machineId'' ''t'' (ApiUpdateOptions L)) \<longrightarrow>
        hasMachineId u \<and>
        (\<exists>s. get_prop u ''machineId'' = JStr s \<and> get_prop v ''machineId'' = JStr s \<and>
             getMachineId u = Returns s \<and> tryGetMachineId u = Some s)) \<and>
     (tag \<notin> set (variants_with ''machineId'' ''t'' (ApiUpdateOptions L)) \<longrightarrow>
        \<not> hasMachineId u \<and> tryGetMachineId u = None \<and> get_prop u ''machineId'' = JUndefined)"
proof -
  from validated_update[OF assms] obtain tag where
    tag: "tag \<in> set ApiUpdateType" and t: "get_prop u ''t'' = JStr tag"
    and sid: "if tag \<in> {''new-message'', ''new-session'', ''delete-session'', ''update-session''}
      then \<exists>s. get_prop u ''sid'' = JStr s \<and> get_prop v ''sid'' = JStr s
      else get_prop u ''sid'' = JUndefined"
    and mid: "if tag \<in> {''update-machine'', ''new-machine''}
      then \<exists>s. get_prop u ''machineId'' = JStr s \<and> get_prop v ''machineId'' = JStr s
      else get_prop u ''machineId'' = JUndefined"
    by blast
  have hs: "hasSessionId u \<longleftrightarrow> tag \<in> {''new-message'', ''new-session'', ''delete-session'', ''update-session''}"
    using tag t by (auto simp: hasSessionId_def SESSION_ID_UPDATE_TYPES_def ApiUpdateType_def)
  have hm: "hasMachineId u \<longleftrightarrow> tag \<in> {''update-machine'', ''new-machine''}"
    using tag t by (auto simp: hasMachineId_def MACHINE_ID_UPDATE_TYPES_def ApiUpdateType_def)
  have s1: "set (variants_with ''sid'' ''t'' (ApiUpdateOptions L)) = {''new-message'', ''new-session'', ''delete-session'', ''update-session''}"
    by (simp add: variants_with_sid)
  have s2: "set (variants_with ''machineId'' ''t'' (ApiUpdateOptions L)) = {''update-machine'', ''new-machine''}"
    by (simp add: variants_with_machineId)
  have session: "(tag \<in> set (variants_with ''sid'' ''t'' (ApiUpdateOptions L)) \<longrightarrow>
        hasSessionId u \<and>
        (\<exists>s. get_prop u ''sid'' = JStr s \<and> get_prop v ''sid'' = JStr s \<and>
             getSessionId u = Returns s \<and> tryGetSessionId u = Some s)) \<and>
     (tag \<notin> set (variants_with ''sid'' ''t'' (ApiUpdateOptions L)) \<longrightarrow>
        \<not> hasSessionId u \<and> tryGetSessionId u = None \<and> get_prop u ''sid'' = JUndefined)"
  proof (cases "hasSessionId u")
    case True
    with hs sid obtain s where "get_prop u ''sid'' = JStr s" "get_prop v ''sid'' = JStr s"
      by auto
    with True hs show ?thesis
      unfolding s1 by (simp add: getSessionId_def tryGetSessionId_def)
  next
    case False
    with hs sid have "get_prop u ''sid'' = JUndefined" by auto
    with False hs show ?thesis
      unfolding s1 by (simp add: tryGetSessionId_def)
  qed
  have machine: "(tag \<in> set (variants_with ''machineId'' ''t'' (ApiUpdateOptions L)) \<longrightarrow>
        hasMachineId u \<and>
        (\<exists>s. get_prop u ''machineId'' = JStr s \<and> get_prop v ''machineId'' = JStr s \<and>
             getMachineId u = Returns s \<and> tryGetMachineId u = Some s)) \<and>
     (tag \<notin> set (variants_with ''machineId'' ''t'' (ApiUpdateOptions L)) \<longrightarrow>
        \<not> hasMachineId u \<and> tryGetMachineId u = None \<and> get_prop u ''machineId'' = JUndefined)"
  proof (cases "hasMachineId u")
    case True
    with hm mid obtain s where "get_prop u ''machineId'' = JStr s" "get_prop v ''machineId'' = JStr s"
      by auto
    with True hm show ?thesis
      unfolding s2 by (simp add: getMachineId_def tryGetMachineId_def)
  next
    case False
    with hm mid have "get_prop u ''machineId'' = JUndefined" by auto
    with False hm show ?thesis
      unfolding s2 by (simp add: tryGetMachineId_def)
  qed
  from t session machine show ?thesis by blast
qed


text \<open>
  The \<open>new-machine\<close> fixture of the accessor tests: its variant contains \<open>machineId\<close>
  and no \<open>sid\<close>.
\<close>

theorem accessor_coverage_witness:
  "safeParse (ApiUpdateSchema exampleLimits) newMachineUpdate = Success newMachineUpdate \<and>
   ''new-machine'' \<in> set (variants_with ''machineId'' ''t'' (ApiUpdateOptions exampleLimits)) \<and>
   ''new-machine'' \<notin> set (variants_with ''sid'' ''t'' (ApiUpdateOptions exampleLimits)) \<and>
   hasMachineId newMachineUpdate \<and>
   getMachineId newMachineUpdate = Returns ''machine-abc'' \<and>
   tryGetMachineId newMachineUpdate = Some ''machine-abc'' \<and>
   \<not> hasSessionId newMachineUpdate \<and>
   tryGetSessionId newMachineUpdate = None"
proof -
  have ok: "safeParse (ApiUpdateSchema exampleLimits) newMachineUpdate = Success newMachineUpdate"
    by (simp add: zod_eval update_schema_defs newMachineUpdate_def)
  have t: "get_prop newMachineUpdate ''t'' = JStr ''new-machine''"
    and m: "get_prop newMachineUpdate ''machineId'' = JStr ''machine-abc''"
    by (simp_all add: newMachineUpdate_def property_def)
  have v1: "''new-machine'' \<in> set (variants_with ''machineId'' ''t'' (ApiUpdateOptions exampleLimits))"
    by (simp add: variants_with_machineId)
  have v2: "''new-machine'' \<notin> set (variants_with ''sid'' ''t'' (ApiUpdateOptions exampleLimits))"
    by (simp add: variants_with_sid)
  from accessor_coverage [OF ok] t m v1 v2 ok show ?thesis
    by auto
qed

section \<open>The accessor precondition\<close>

text \<open>
  C8. For every validated member of the union of updates whose variant does not carry
  the requested identifier, \<open>getSessionId\<close> (respectively \<open>getMachineId\<close>) fails with
  the invariant violation: it returns no value, in particular not the empty string, and
  the fault is not a validation failure with issues.
\<close>

theorem accessor_precondition_fault:
  assumes "safeParse (ApiUpdateSchema L) v = Success u"
  shows "\<exists>tag. get_prop u ''t'' = JStr tag \<and>
     (tag \<notin> set (variants_with ''sid'' ''t'' (ApiUpdateOptions L)) \<longrightarrow>
        getSessionId u = InvariantViolation \<and> (\<forall>s. getSessionId u \<noteq> Returns s)) \<and>
     (tag \<notin> set (variants_with ''machineId'' ''t'' (ApiUpdateOptions L)) \<longrightarrow>
        getMachineId u = InvariantViolation \<and> (\<forall>s. getMachineId u \<noteq> Returns s))"
proof -
  from validated_update[OF assms] obtain tag where
    tag: "tag \<in> set ApiUpdateType" and t: "get_prop u ''t'' = JStr tag"
    by blast
  have "getSessionId u = InvariantViolation"
    if "tag \<notin> set (variants_with ''sid'' ''t'' (ApiUpdateOptions L))"
  proof -
    from that tag t have "\<not> hasSessionId u"
      by (auto simp: variants_with_sid hasSessionId_def SESSION_ID_UPDATE_TYPES_def ApiUpdateType_def)
    then show ?thesis by (simp add: getSessionId_def)
  qed
  moreover have "getMachineId u = InvariantViolation"
    if "tag \<notin> set (variants_with ''machineId'' ''t'' (ApiUpdateOptions L))"
  proof -
    from that tag t have "\<not> hasMachineId u"
      by (auto simp: variants_with_machineId hasMachineId_def MACHINE_ID_UPDATE_TYPES_def ApiUpdateType_def)
    then show ?thesis by (simp add: getMachineId_def)
  qed
  ultimately show ?thesis using t by auto
qed

text \<open>
  \<open>getSessionId\<close> on the \<open>new-machine\<close> fixture, which carries no session identifier.
\<close>

theorem accessor_precondition_fault_witness:
  "safeParse (ApiUpdateSchema exampleLimits) newMachineUpdate = Success newMachineUpdate \<and>
   ''new-machine'' \<notin> set (variants_with ''sid'' ''t'' (ApiUpdateOptions exampleLimits)) \<and>
   getSessionId newMachineUpdate = InvariantViolation \<and>
   getSessionId newMachineUpdate \<noteq> Returns []"
proof -
  have ok: "safeParse (ApiUpdateSchema exampleLimits) newMachineUpdate = Success newMachineUpdate"
    by (simp add: zod_eval update_schema_defs newMachineUpdate_def)
  have t: "get_prop newMachineUpdate ''t'' = JStr ''new-machine''"
    by (simp add: newMachineUpdate_def property_def)
  have v2: "''new-machine'' \<notin> set (variants_with ''sid'' ''t'' (ApiUpdateOptions exampleLimits))"
    by (simp add: variants_with_sid)
  from accessor_precondition_fault [OF ok] t v2 ok show ?thesis
    by auto
qed


section \<open>Payload wrappers\<close>

lemma zparse_number_JNum: "zparse ZNumber (JNum n) = OK (JNum n)"
  by (simp add: zparse.simps)

lemma zparse_number_valid:
  "status_of (zparse ZNumber d) = valid \<longleftrightarrow> (\<exists>n. d = JNum n)"
  by (cases d) (simp_all add: zparse.simps)

lemma passthrough_body:
  assumes "property body ''t'' = JStr tag"
  shows "zparse (ZObject passthrough [(''t'', ZString [])]) (JObj body) =
           OK (JObj ((''t'', JStr tag) #
                     filter (\<lambda>(k, v). k \<noteq> ''t'' \<and> k \<noteq> ''__proto__'' \<and> v \<noteq> JUndefined) body))"
proof -
  let ?extra = "map (\<lambda>(k, v). (k, False, OK v))
                  (filter (\<lambda>(k, v). k \<notin> set (map fst [(''t'', ZString [])])) body)"
  have pairs: "object_pairs passthrough [(''t'', ZString [])] body =
      (''t'', has_key body ''t'', OK (JStr tag)) # ?extra"
    using assms
    by (simp add: object_pairs_def zparse_string_JStr nested_def OK_def status_of_def
          issues_of_def value_of_def)
  have st: "merge_status (map (snd \<circ> snd) ((''t'', has_key body ''t'', OK (JStr tag)) # ?extra)) = valid"
    by (auto simp: merge_status_valid)
  have iss: "concat (map (issues_of \<circ> snd \<circ> snd) ((''t'', has_key body ''t'', OK (JStr tag)) # ?extra)) = []"
    by (auto simp: OK_def issues_of_def)
  have out: "map (\<lambda>(k, _, r). (k, value_of r))
               (filter (\<lambda>(k, alwaysSet, r).
                          k \<noteq> ''__proto__'' \<and> (value_of r \<noteq> JUndefined \<or> alwaysSet)) ?extra) =
             filter (\<lambda>(k, v). k \<noteq> ''t'' \<and> k \<noteq> ''__proto__'' \<and> v \<noteq> JUndefined) body"
    by (induction body) auto
  show ?thesis
    unfolding zparse_object_JObj pairs
    using st iss out by (simp add: mergeObject_def Let_def OK_def value_of_def issues_of_def)
qed

lemma update_payload_accepts:
  assumes "property obj ''id'' = JStr i" "property obj ''seq'' = JNum n"
    "property obj ''body'' = JObj body" "property body ''t'' = JStr tag"
    "property obj ''createdAt'' = JNum c"
  shows "safeParse UpdatePayloadSchema (JObj obj) =
     Success (JObj [(''id'', JStr i), (''seq'', JNum n),
                    (''body'', JObj ((''t'', JStr tag) #
           filter (\<lambda>(k, v). k \<noteq> ''t'' \<and> k \<noteq> ''__proto__'' \<and> v \<noteq> JUndefined) body)),
                    (''createdAt'', JNum c)])"
  using assms
  by (simp add: safeParse_def UpdatePayloadSchema_def zparse_object_JObj[of strip] object_pairs_def
        passthrough_body zparse_string_JStr zparse_number_JNum mergeObject_def merge_status_def
        nested_def OK_def status_of_def issues_of_def value_of_def)

lemma container_body_validates:
  assumes "safeParse (ApiUpdateContainerSchema L) v = Success u"
  shows "\<exists>b. safeParse (ApiUpdateSchema L) (get_prop v ''body'') = Success b"
proof -
  from assms have st: "status_of (zparse (ApiUpdateContainerSchema L) v) = valid"
    by (simp add: safeParse_Success_iff)
  then have "status_of (zparse (ApiUpdateContainerSchema L) v) \<noteq> aborted" by simp
  then obtain obj where v: "v = JObj obj"
    unfolding ApiUpdateContainerSchema_def by (rule zparse_object_not_aborted)
  have mem: "(''body'', ApiUpdateSchema L) \<in>
      set [(''id'', ZString []), (''seq'', ZNumber), (''body'', ApiUpdateSchema L),
           (''createdAt'', ZNumber)]"
    by simp
  from st v have "status_of (zparse (ZObject strip
      [(''id'', ZString []), (''seq'', ZNumber), (''body'', ApiUpdateSchema L),
       (''createdAt'', ZNumber)]) (JObj obj)) = valid"
    by (simp add: ApiUpdateContainerSchema_def)
  from zparse_object_valid_fields[OF this mem]
  have "status_of (zparse (ApiUpdateSchema L) (property obj ''body'')) = valid" .
  with v show ?thesis by (simp add: safeParse_Success_iff)
qed

lemma passthrough_body_valid_iff:
  "status_of (zparse (ZObject passthrough [(''t'', ZString [])]) d) = valid \<longleftrightarrow>
     (\<exists>body tag. d = JObj body \<and> property body ''t'' = JStr tag)"
proof (cases "\<exists>body. d = JObj body")
  case True
  then obtain body where "d = JObj body" by blast
  then show ?thesis
    by (simp add: zparse_object_valid_iff zparse_string_valid)
next
  case False
  then show ?thesis by (simp add: zparse_object_other)
qed

lemma update_payload_accepts_iff:
  "(\<exists>u. safeParse UpdatePayloadSchema v = Success u) \<longleftrightarrow>
     (\<exists>obj i n body tag c. v = JObj obj \<and> property obj ''id'' = JStr i \<and>
        property obj ''seq'' = JNum n \<and> property obj ''body'' = JObj body \<and>
        property body ''t'' = JStr tag \<and> property obj ''createdAt'' = JNum c)"
proof (cases "\<exists>obj. v = JObj obj")
  case True
  then obtain obj where "v = JObj obj" by blast
  then show ?thesis
    by (auto simp: safeParse_Success_iff UpdatePayloadSchema_def zparse_object_valid_iff[of strip]
          zparse_string_valid zparse_number_valid passthrough_body_valid_iff)
next
  case False
  then show ?thesis
    by (simp add: safeParse_Success_iff UpdatePayloadSchema_def zparse_object_other)
qed

lemma update_payload_passes_through:
  assumes "property obj ''id'' = JStr i" "property obj ''seq'' = JNum n"
    "property obj ''body'' = JObj body" "property body ''t'' = JStr tag"
    "property obj ''createdAt'' = JNum c"
  shows "\<exists>out. safeParse UpdatePayloadSchema (JObj obj) =
            Success (JObj [(''id'', JStr i), (''seq'', JNum n), (''body'', JObj out),
                           (''createdAt'', JNum c)]) \<and>
          set out = insert (''t'', JStr tag)
            {(k, v). (k, v) \<in> set body \<and> k \<noteq> ''t'' \<and> k \<noteq> ''__proto__'' \<and> v \<noteq> JUndefined}"
proof -
  let ?out = "(''t'', JStr tag) #
     filter (\<lambda>(k, v). k \<noteq> ''t'' \<and> k \<noteq> ''__proto__'' \<and> v \<noteq> JUndefined) body"
  have "set ?out = insert (''t'', JStr tag)
            {(k, v). (k, v) \<in> set body \<and> k \<noteq> ''t'' \<and> k \<noteq> ''__proto__'' \<and> v \<noteq> JUndefined}"
    by auto
  with update_payload_accepts[OF assms] show ?thesis by blast
qed

lemma update_payload_rejections:
  "safeParse UpdatePayloadSchema payloadWithoutTag =
     Failure [Issue invalid_type [Key ''body'', Key ''t''] []] \<and>
   safeParse UpdatePayloadSchema (JObj []) =
     Failure [Issue invalid_type [Key ''id''] [], Issue invalid_type [Key ''seq''] [],
              Issue invalid_type [Key ''body''] [], Issue invalid_type [Key ''createdAt''] []]"
  by (simp add: zod_eval UpdatePayloadSchema_def payloadWithoutTag_def)

text \<open>
  C9. \<open>UpdatePayloadSchema\<close> checks only that the wrapped body has a string \<open>t\<close> (next
  to the envelope's own \<open>id\<close>, \<open>seq\<close> and \<open>createdAt\<close>): it accepts exactly the
  objects with these properties, and rejects a body without \<open>t\<close> and an empty envelope.
  It passes every other property of the body through unvalidated: the returned body
  holds \<open>t\<close> and every other defined property of the input body (but a key
  \<^verbatim>\<open>__proto__\<close>); the order in which the returned body enumerates them is not stated.
  There is a value that it accepts whose body fails validation against the union of
  updates, so its success does not imply that the body is a valid update;
  \<open>ApiUpdateContainerSchema\<close> rejects that value, and whenever it accepts a value the
  body validates against the union.
\<close>

theorem update_payload_body_unvalidated:
  "((\<exists>u. safeParse UpdatePayloadSchema w = Success u) \<longleftrightarrow>
      (\<exists>obj i n body tag c. w = JObj obj \<and> property obj ''id'' = JStr i \<and>
         property obj ''seq'' = JNum n \<and> property obj ''body'' = JObj body \<and>
         property body ''t'' = JStr tag \<and> property obj ''createdAt'' = JNum c)) \<and>
   (property obj ''id'' = JStr i \<and> property obj ''seq'' = JNum n \<and>
    property obj ''body'' = JObj body \<and> property body ''t'' = JStr tag \<and>
    property obj ''createdAt'' = JNum c \<longrightarrow>
      (\<exists>out. safeParse UpdatePayloadSchema (JObj obj) =
                Success (JObj [(''id'', JStr i), (''seq'', JNum n), (''body'', JObj out),
                               (''createdAt'', JNum c)]) \<and>
             set out = insert (''t'', JStr tag)
               {(k, v). (k, v) \<in> set body \<and> k \<noteq> ''t'' \<and> k \<noteq> ''__proto__'' \<and>
                        v \<noteq> JUndefined})) \<and>
   safeParse UpdatePayloadSchema payloadWithoutTag =
     Failure [Issue invalid_type [Key ''body'', Key ''t''] []] \<and>
   safeParse UpdatePayloadSchema (JObj []) =
     Failure [Issue invalid_type [Key ''id''] [], Issue invalid_type [Key ''seq''] [],
              Issue invalid_type [Key ''body''] [], Issue invalid_type [Key ''createdAt''] []] \<and>
   safeParse UpdatePayloadSchema bogusPayload = Success bogusPayload \<and>
   safeParse (ApiUpdateSchema L) (get_prop bogusPayload ''body'') =
     Failure [Issue invalid_union_discriminator [Key ''t''] []] \<and>
   safeParse (ApiUpdateContainerSchema L) bogusPayload =
     Failure [Issue invalid_union_discriminator [Key ''body'', Key ''t''] []] \<and>
   (safeParse (ApiUpdateContainerSchema L) v = Success u \<longrightarrow>
      (\<exists>b. safeParse (ApiUpdateSchema L) (get_prop v ''body'') = Success b))"
proof -
  have "safeParse UpdatePayloadSchema bogusPayload = Success bogusPayload"
    by (simp add: zod_eval UpdatePayloadSchema_def bogusPayload_def bogusUpdate_def)
  moreover have "safeParse (ApiUpdateSchema L) (get_prop bogusPayload ''body'') =
     Failure [Issue invalid_union_discriminator [Key ''t''] []]"
    by (simp add: zod_eval update_schema_defs bogusPayload_def bogusUpdate_def)
  moreover have "safeParse (ApiUpdateContainerSchema L) bogusPayload =
     Failure [Issue invalid_union_discriminator [Key ''body'', Key ''t''] []]"
    by (simp add: zod_eval ApiUpdateContainerSchema_def update_schema_defs bogusPayload_def
          bogusUpdate_def)
  moreover note update_payload_accepts_iff [of w] update_payload_rejections
  moreover have "property obj ''id'' = JStr i \<and> property obj ''seq'' = JNum n \<and>
    property obj ''body'' = JObj body \<and> property body ''t'' = JStr tag \<and>
    property obj ''createdAt'' = JNum c \<longrightarrow>
      (\<exists>out. safeParse UpdatePayloadSchema (JObj obj) =
                Success (JObj [(''id'', JStr i), (''seq'', JNum n), (''body'', JObj out),
                               (''createdAt'', JNum c)]) \<and>
             set out = insert (''t'', JStr tag)
               {(k, v). (k, v) \<in> set body \<and> k \<noteq> ''t'' \<and> k \<noteq> ''__proto__'' \<and>
                        v \<noteq> JUndefined})"
    using update_payload_passes_through [of obj i n body tag c] by blast
  moreover have "safeParse (ApiUpdateContainerSchema L) v = Success u \<longrightarrow>
      (\<exists>b. safeParse (ApiUpdateSchema L) (get_prop v ''body'') = Success b)"
    using container_body_validates [of L v u] by blast
  ultimately show ?thesis by (intro conjI) blast+
qed

text \<open>
  The envelope around \<open>{t:"bogus-variant", foo:"bar"}\<close> has the four properties, is
  accepted by \<open>UpdatePayloadSchema\<close> with both properties of its body, and is rejected
  by \<open>ApiUpdateContainerSchema\<close>; the envelope whose body has no \<open>t\<close> is rejected by
  \<open>UpdatePayloadSchema\<close>; an envelope around the \<open>new-message\<close> update is accepted by
  the container, and its body validates.
\<close>

theorem update_payload_body_unvalidated_witness:
  "property [(''id'', JStr ''upd-1''), (''seq'', JNum 7), (''body'', bogusUpdate),
             (''createdAt'', JNum 1700000000000)] ''body'' =
     JObj [(''t'', JStr ''bogus-variant''), (''foo'', JStr ''bar'')] \<and>
   (\<exists>out. safeParse UpdatePayloadSchema bogusPayload =
            Success (JObj [(''id'', JStr ''upd-1''), (''seq'', JNum 7), (''body'', JObj out),
                           (''createdAt'', JNum 1700000000000)]) \<and>
          set out = {(''t'', JStr ''bogus-variant''), (''foo'', JStr ''bar'')}) \<and>
   (\<exists>u. safeParse UpdatePayloadSchema bogusPayload = Success u) \<and>
   \<not> (\<exists>u. safeParse UpdatePayloadSchema payloadWithoutTag = Success u) \<and>
   safeParse UpdatePayloadSchema payloadWithoutTag =
     Failure [Issue invalid_type [Key ''body'', Key ''t''] []] \<and>
   safeParse (ApiUpdateSchema exampleLimits) bogusUpdate =
     Failure [Issue invalid_union_discriminator [Key ''t''] []] \<and>
   safeParse (ApiUpdateContainerSchema exampleLimits) bogusPayload =
     Failure [Issue invalid_union_discriminator [Key ''body'', Key ''t''] []] \<and>
   safeParse (ApiUpdateContainerSchema exampleLimits)
     (JObj [(''id'', JStr ''upd-1''), (''seq'', JNum 7), (''body'', newMessageUpdate),
            (''createdAt'', JNum 1700000000000)]) =
   Success (JObj [(''id'', JStr ''upd-1''), (''seq'', JNum 7), (''body'', newMessageUpdate),
            (''createdAt'', JNum 1700000000000)]) \<and>
   (\<exists>b. safeParse (ApiUpdateSchema exampleLimits) newMessageUpdate = Success b)"
proof -
  let ?obj = "[(''id'', JStr ''upd-1''), (''seq'', JNum 7), (''body'', bogusUpdate),
               (''createdAt'', JNum 1700000000000)]"
  let ?body = "[(''t'', JStr ''bogus-variant''), (''foo'', JStr ''bar'')]"
  let ?good = "JObj [(''id'', JStr ''upd-1''), (''seq'', JNum 7), (''body'', newMessageUpdate),
            (''createdAt'', JNum 1700000000000)]"
  note T = update_payload_body_unvalidated
         [where w = bogusPayload and obj = ?obj and i = "''upd-1''" and n = 7 and body = ?body
            and tag = "''bogus-variant''" and c = 1700000000000 and L = exampleLimits
            and v = ?good and u = ?good]
  note T' = update_payload_body_unvalidated
         [where w = payloadWithoutTag and obj = ?obj and i = "''upd-1''" and n = 7
            and body = ?body and tag = "''bogus-variant''" and c = 1700000000000
            and L = exampleLimits and v = ?good and u = ?good]
  have hyp: "property ?obj ''id'' = JStr ''upd-1'' \<and> property ?obj ''seq'' = JNum 7 \<and>
    property ?obj ''body'' = JObj ?body \<and> property ?body ''t'' = JStr ''bogus-variant'' \<and>
    property ?obj ''createdAt'' = JNum 1700000000000"
    by (simp add: property_def bogusUpdate_def)
  have entries: "insert (''t'', JStr ''bogus-variant'')
      {(k, v). (k, v) \<in> set ?body \<and> k \<noteq> ''t'' \<and> k \<noteq> ''__proto__'' \<and> v \<noteq> JUndefined} =
      {(''t'', JStr ''bogus-variant''), (''foo'', JStr ''bar'')}"
    by auto
  from T hyp have "\<exists>out. safeParse UpdatePayloadSchema (JObj ?obj) =
            Success (JObj [(''id'', JStr ''upd-1''), (''seq'', JNum 7), (''body'', JObj out),
                           (''createdAt'', JNum 1700000000000)]) \<and>
          set out = insert (''t'', JStr ''bogus-variant'')
      {(k, v). (k, v) \<in> set ?body \<and> k \<noteq> ''t'' \<and> k \<noteq> ''__proto__'' \<and> v \<noteq> JUndefined}"
    by blast
  then have a: "\<exists>out. safeParse UpdatePayloadSchema bogusPayload =
            Success (JObj [(''id'', JStr ''upd-1''), (''seq'', JNum 7), (''body'', JObj out),
                           (''createdAt'', JNum 1700000000000)]) \<and>
          set out = {(''t'', JStr ''bogus-variant''), (''foo'', JStr ''bar'')}"
    unfolding entries by (simp add: bogusPayload_def)
  then have a': "\<exists>u. safeParse UpdatePayloadSchema bogusPayload = Success u"
    by blast
  from T' have rej: "safeParse UpdatePayloadSchema payloadWithoutTag =
     Failure [Issue invalid_type [Key ''body'', Key ''t''] []]"
    by blast
  then have rej': "\<not> (\<exists>u. safeParse UpdatePayloadSchema payloadWithoutTag = Success u)"
    by simp
  have "get_prop bogusPayload ''body'' = bogusUpdate"
    by (simp add: property_def bogusPayload_def)
  with T have b: "safeParse (ApiUpdateSchema exampleLimits) bogusUpdate =
     Failure [Issue invalid_union_discriminator [Key ''t''] []]"
    by simp
  from T have c: "safeParse (ApiUpdateContainerSchema exampleLimits) bogusPayload =
     Failure [Issue invalid_union_discriminator [Key ''body'', Key ''t''] []]"
    by blast
  have good: "safeParse (ApiUpdateContainerSchema exampleLimits) ?good = Success ?good"
    by (simp add: zod_eval ApiUpdateContainerSchema_def update_schema_defs newMessageUpdate_def
          new_message_def)
  have "get_prop ?good ''body'' = newMessageUpdate"
    by (simp add: property_def)
  with T good have d: "\<exists>b. safeParse (ApiUpdateSchema exampleLimits) newMessageUpdate = Success b"
    by simp
  from hyp a a' rej rej' b c good d show ?thesis by blast
qed

section \<open>Validation of the ephemeral union\<close>

subsection \<open>Schemas without refinements are never dirty\<close>

lemma merge_status_not_dirty:
  "\<forall>r \<in> set rs. status_of r \<noteq> dirty \<Longrightarrow> merge_status rs \<noteq> dirty"
  by (auto simp: merge_status_def)

lemma status_mergeArray [simp]: "status_of (mergeArray rs) = merge_status rs"
  by (simp add: mergeArray_def Let_def status_of_def INVALID_def)

lemma find_status_mem:
  "find (\<lambda>r. status_of r = st) rs = Some r \<Longrightarrow> r \<in> set rs \<and> status_of r = st"
  by (auto simp: find_Some_iff)

lemma refinement_free_not_dirty:
  "refinement_free s \<Longrightarrow> status_of (zparse s d) \<noteq> dirty"
proof (induction s d rule: zparse.induct)
  case (1 checks d)
  then show ?case by (cases d) (simp_all add: zparse.simps status_of_def INVALID_def)
next
  case (2 d)
  then show ?case by (cases d) (simp_all add: zparse.simps)
next
  case (3 d)
  then show ?case by (cases d) (simp_all add: zparse.simps)
next
  case (4 v d)
  then show ?case by (simp add: zparse.simps)
next
  case (5 vs d)
  then show ?case by (cases d) (simp_all add: zparse.simps)
next
  case (6 s d)
  then show ?case by (simp add: zparse.simps)
next
  case (7 s d)
  then show ?case by (simp add: zparse.simps)
next
  case (8 s d)
  show ?case
  proof (cases d)
    case (JArr items)
    have "\<forall>r \<in> set (map (\<lambda>(i, item). nested (Index i) (zparse s item)) (enumerate 0 items)).
            status_of r \<noteq> dirty"
      using 8 JArr by (auto simp: in_set_enumerate_eq)
    then show ?thesis
      using JArr by (simp add: zparse.simps merge_status_not_dirty del: set_map)
  qed (simp_all add: zparse.simps)
next
  case (9 mode shape d)
  show ?case
  proof (cases d)
    case (JObj obj)
    have "\<forall>r \<in> set (map (snd \<circ> snd) (object_pairs mode shape obj)). status_of r \<noteq> dirty"
      using 9 JObj by (cases mode) (auto simp: object_pairs_def list_all_iff)
    then show ?thesis
      using JObj by (simp add: zparse_object_JObj merge_status_not_dirty del: set_map)
  qed (simp_all add: zparse.simps)
next
  case (10 opts d)
  have all: "\<forall>r \<in> set (map (\<lambda>s. zparse s d) opts). status_of r \<noteq> dirty"
    using 10 by (auto simp: list_all_iff)
  show ?case
  proof (cases "find (\<lambda>r. status_of r = valid) (map (\<lambda>s. zparse s d) opts)")
    case None
    moreover from all have "find (\<lambda>r. status_of r = dirty) (map (\<lambda>s. zparse s d) opts) = None"
      by (auto simp: find_None_iff)
    ultimately show ?thesis by (simp add: zparse.simps Let_def)
  next
    case (Some r)
    then show ?thesis
      by (auto simp: zparse.simps Let_def dest: find_status_mem)
  qed
next
  case (11 disc opts d)
  show ?case
  proof (cases "status_of (zparse (ZDiscriminatedUnion disc opts) d) = aborted")
    case True
    then show ?thesis by simp
  next
    case False
    from zparse_du_not_aborted[OF this] obtain obj tag opt where
      d: "d = JObj obj" "property obj disc = JStr tag"
      and opt: "map_of (optionsMap disc opts) tag = Some opt"
      and eq: "zparse (ZDiscriminatedUnion disc opts) d = zparse opt d"
      by blast
    from opt have "opt \<in> set opts" by (rule optionsMap_mem)
    with 11(2) have "refinement_free opt" by (simp add: list_all_iff)
    with 11(1)[OF d opt] eq show ?thesis by simp
  qed
qed


subsection \<open>The union tries its members in order\<close>

lemma find_map_parsed:
  "find P (map f xs) = map_option f (find (P \<circ> f) xs)"
  by (induction xs) simp_all

lemma ephemeral_refinement_free:
  "list_all refinement_free ApiEphemeralUpdateOptions"
  by (simp add: ephemeral_schema_defs)

text \<open>
  C7 (counterexample). The specification has the ephemeral union dispatch on \<open>type\<close>,
  validate against the selected variant only, and report an unknown \<open>type\<close> as a
  condition of its own. An input whose \<open>type\<close> is no known variant and an \<open>activity\<close>
  event that lacks its properties fail alike: one \<open>invalid_union\<close> issue at the root,
  carrying the issues of all four members.
\<close>

theorem ephemeral_unknown_type_not_distinct:
  "safeParse ApiEphemeralUpdateSchema unknownEphemeral =
     Failure [Issue invalid_union []
       [[Issue invalid_literal [Key ''type''] [], Issue invalid_type [Key ''id''] [],
         Issue invalid_type [Key ''active''] [], Issue invalid_type [Key ''activeAt''] [],
         Issue invalid_type [Key ''thinking''] []],
        [Issue invalid_literal [Key ''type''] [], Issue invalid_type [Key ''id''] [],
         Issue invalid_type [Key ''key''] [], Issue invalid_type [Key ''timestamp''] [],
         Issue invalid_type [Key ''tokens''] [], Issue invalid_type [Key ''cost''] []],
        [Issue invalid_literal [Key ''type''] [], Issue invalid_type [Key ''id''] [],
         Issue invalid_type [Key ''active''] [], Issue invalid_type [Key ''activeAt''] []],
        [Issue invalid_literal [Key ''type''] [], Issue invalid_type [Key ''machineId''] [],
         Issue invalid_type [Key ''online''] [], Issue invalid_type [Key ''timestamp''] []]]] \<and>
   safeParse ApiEphemeralUpdateSchema malformedActivity =
     Failure [Issue invalid_union []
       [[Issue invalid_type [Key ''id''] [],
         Issue invalid_type [Key ''active''] [], Issue invalid_type [Key ''activeAt''] [],
         Issue invalid_type [Key ''thinking''] []],
        [Issue invalid_literal [Key ''type''] [], Issue invalid_type [Key ''id''] [],
         Issue invalid_type [Key ''key''] [], Issue invalid_type [Key ''timestamp''] [],
         Issue invalid_type [Key ''tokens''] [], Issue invalid_type [Key ''cost''] []],
        [Issue invalid_literal [Key ''type''] [], Issue invalid_type [Key ''id''] [],
         Issue invalid_type [Key ''active''] [], Issue invalid_type [Key ''activeAt''] []],
        [Issue invalid_literal [Key ''type''] [], Issue invalid_type [Key ''machineId''] [],
         Issue invalid_type [Key ''online''] [], Issue invalid_type [Key ''timestamp''] []]]] \<and>
   map code (issues (safeParse ApiEphemeralUpdateSchema unknownEphemeral)) =
   map code (issues (safeParse ApiEphemeralUpdateSchema malformedActivity))"
proof -
  have a: "safeParse ApiEphemeralUpdateSchema unknownEphemeral =
     Failure [Issue invalid_union []
       [[Issue invalid_literal [Key ''type''] [], Issue invalid_type [Key ''id''] [],
         Issue invalid_type [Key ''active''] [], Issue invalid_type [Key ''activeAt''] [],
         Issue invalid_type [Key ''thinking''] []],
        [Issue invalid_literal [Key ''type''] [], Issue invalid_type [Key ''id''] [],
         Issue invalid_type [Key ''key''] [], Issue invalid_type [Key ''timestamp''] [],
         Issue invalid_type [Key ''tokens''] [], Issue invalid_type [Key ''cost''] []],
        [Issue invalid_literal [Key ''type''] [], Issue invalid_type [Key ''id''] [],
         Issue invalid_type [Key ''active''] [], Issue invalid_type [Key ''activeAt''] []],
        [Issue invalid_literal [Key ''type''] [], Issue invalid_type [Key ''machineId''] [],
         Issue invalid_type [Key ''online''] [], Issue invalid_type [Key ''timestamp''] []]]]"
    by (simp add: zod_eval ephemeral_schema_defs unknownEphemeral_def)
  have b: "safeParse ApiEphemeralUpdateSchema malformedActivity =
     Failure [Issue invalid_union []
       [[Issue invalid_type [Key ''id''] [],
         Issue invalid_type [Key ''active''] [], Issue invalid_type [Key ''activeAt''] [],
         Issue invalid_type [Key ''thinking''] []],
        [Issue invalid_literal [Key ''type''] [], Issue invalid_type [Key ''id''] [],
         Issue invalid_type [Key ''key''] [], Issue invalid_type [Key ''timestamp''] [],
         Issue invalid_type [Key ''tokens''] [], Issue invalid_type [Key ''cost''] []],
        [Issue invalid_literal [Key ''type''] [], Issue invalid_type [Key ''id''] [],
         Issue invalid_type [Key ''active''] [], Issue invalid_type [Key ''activeAt''] []],
        [Issue invalid_literal [Key ''type''] [], Issue invalid_type [Key ''machineId''] [],
         Issue invalid_type [Key ''online''] [], Issue invalid_type [Key ''timestamp''] []]]]"
    by (simp add: zod_eval ephemeral_schema_defs malformedActivity_def)
  show ?thesis
    unfolding a b by simp
qed

text \<open>
  C7 (as amended). Validation of the ephemeral union does not dispatch on \<open>type\<close>: it
  is a plain union, which tries the four member schemas in the order of declaration and
  returns the first successful parse; an input that no member accepts, whether its
  \<open>type\<close> is unknown or a known variant is malformed, fails with the single generic
  \<open>invalid_union\<close> issue that carries each member's issues.
\<close>

theorem ephemeral_union_tries_members:
  "safeParse ApiEphemeralUpdateSchema v =
     (case find (\<lambda>s. status_of (zparse s v) = valid) ApiEphemeralUpdateOptions of
        Some s \<Rightarrow> Success (value_of (zparse s v))
      | None \<Rightarrow>
          Failure [Issue invalid_union []
                     (filter (\<lambda>is. is \<noteq> [])
                        (map (\<lambda>s. issues_of (zparse s v)) ApiEphemeralUpdateOptions))])"
proof -
  let ?rs = "map (\<lambda>s. zparse s v) ApiEphemeralUpdateOptions"
  have valid: "find (\<lambda>r. status_of r = valid) ?rs =
      map_option (\<lambda>s. zparse s v)
        (find (\<lambda>s. status_of (zparse s v) = valid) ApiEphemeralUpdateOptions)"
    by (simp add: find_map_parsed comp_def)
  have "\<forall>s \<in> set ApiEphemeralUpdateOptions. status_of (zparse s v) \<noteq> dirty"
    using ephemeral_refinement_free refinement_free_not_dirty
    by (simp add: list_all_iff)
  then have dirty: "find (\<lambda>r. status_of r = dirty) ?rs = None"
    by (auto simp: find_None_iff)
  show ?thesis
  proof (cases "find (\<lambda>s. status_of (zparse s v) = valid) ApiEphemeralUpdateOptions")
    case None
    with valid dirty show ?thesis
      by (simp add: safeParse_def ApiEphemeralUpdateSchema_def zparse.simps(10) Let_def comp_def)
  next
    case (Some s)
    then have "status_of (zparse s v) = valid"
      by (auto simp: find_Some_iff)
    with Some valid show ?thesis
      by (simp add: safeParse_def ApiEphemeralUpdateSchema_def zparse.simps(10) Let_def)
  qed
qed


end
